theory Spec2Isabelle
  imports Main
begin

section \<open>Data model\<close>

text \<open>
  The store is the relational database behind the Sequelize models. Every model of the
  repository is declared \<^verbatim>\<open>paranoid\<close>, so a row with \<^verbatim>\<open>deleted_at\<close> set is invisible to
  each query of the handlers below; a table is therefore the list of its live rows, in the
  order in which the database returns them. Amounts (\<^verbatim>\<open>DECIMAL(10, 2)\<close>) are integers in
  hundredths of the currency unit. Columns that no handler below reads or writes
  (\<^verbatim>\<open>currency\<close>, \<^verbatim>\<open>raw_response\<close>, \<^verbatim>\<open>va_numbers\<close>, timestamps of the ORM, ...) are left out.
\<close>

datatype pay_status =
  St_pending | St_settlement | St_capture | St_cancel | St_deny | St_expire | St_failure
  | St_refund | St_partial_refund

datatype order_status =
  Os_pending | Os_confirmed | Os_processing | Os_shipped | Os_delivered | Os_cancelled

datatype order_payment_status = Ps_pending | Ps_paid | Ps_failed | Ps_refunded

text \<open>
  The fields that the webhook handler destructures from the request body.
  \<^verbatim>\<open>transaction_status\<close> ranges over the values that the schema of the webhook and the
  \<^verbatim>\<open>ENUM\<close> of \<^verbatim>\<open>Payment.status\<close> declare; a field that the body does not carry is absent.
\<close>

record notification =
  n_order_id :: "string option"
  n_transaction_id :: "string option"
  n_transaction_status :: pay_status
  n_fraud_status :: "string option"
  n_payment_type :: "string option"
  n_signature_key :: "string option"

record payment =
  pay_id :: int
  pay_order_id :: int
  pay_user_id :: int
  payment_method :: string
  midtrans_transaction_id :: "string option"
  midtrans_order_id :: "string option"
  amount :: int
  status :: pay_status
  fraud_status :: "string option"
  payment_date :: "nat option"
  expiry_time :: "nat option"
  payment_url :: "string option"
  signature_key :: "string option"
  webhook_logs :: "(nat \<times> notification) list"

record order =
  ord_id :: int
  order_number :: string
  ord_user_id :: int
  ord_address_id :: int
  ord_status :: order_status
  subtotal :: int
  shipping_cost :: int
  tax_amount :: int
  discount_amount :: int
  total_amount :: int
  payment_status :: order_payment_status
  shipping_method :: "string option"
  ord_notes :: "string option"
  ordered_at :: nat

record product =
  prod_id :: int
  name :: string
  price :: int
  sku :: "string option"
  stock_quantity :: int
  is_active :: bool

record cart_line =
  cart_id :: int
  cart_user_id :: int
  cart_product_id :: int
  quantity :: int

record order_item =
  item_order_id :: int
  item_product_id :: int
  item_quantity :: int
  unit_price :: int
  total_price :: int
  product_name :: string
  product_sku :: "string option"

record address =
  addr_id :: int
  addr_user_id :: int
  addr_is_active :: bool

record db =
  products :: "product list"
  cart :: "cart_line list"
  addresses :: "address list"
  orders :: "order list"
  order_items :: "order_item list"
  payments :: "payment list"

text \<open>An HTTP response: the status code and the \<^verbatim>\<open>message\<close> of the JSON body.\<close>

type_synonym response = "nat \<times> string"

section \<open>Notification Reconciler: \<^verbatim>\<open>midtransNotification\<close> (webhookController.js)\<close>

text \<open>
  The environment of one webhook call: the clock read by \<^verbatim>\<open>new Date()\<close>; the integer, if
  any, as which the database reads the text \<^verbatim>\<open>order_id\<close> when the query compares it with
  the integer column \<^verbatim>\<open>payments.order_id\<close> (this belongs to the database engine, not to
  the repository, so it is a parameter); and which of the four store calls throws of itself
  (a lost connection, a value that the database engine refuses for its length or spelling),
  which sends the handler to its \<^verbatim>\<open>catch\<close> block. The two throws that the notification
  and the table decide, an absent key in the lookup and a duplicate of the unique
  transaction id in the update, are not left to the environment; they are part of the
  definitions below.
\<close>

datatype wh_call = Payment_findOne | Payment_update | Order_findByPk | Order_update

record wh_env =
  now :: nat
  as_id :: "string \<Rightarrow> int option"
  wh_throws :: "wh_call \<Rightarrow> bool"

text \<open>The three alternatives of the \<^verbatim>\<open>Op.or\<close> of the lookup, each for a key that the body
  carries.\<close>

definition by_order_id :: "wh_env \<Rightarrow> string \<Rightarrow> payment \<Rightarrow> bool" where
  "by_order_id e order_id p \<longleftrightarrow> as_id e order_id = Some (pay_order_id p)"

definition by_midtrans_order_id :: "string \<Rightarrow> payment \<Rightarrow> bool" where
  "by_midtrans_order_id order_id p \<longleftrightarrow> midtrans_order_id p = Some order_id"

definition by_transaction_id :: "string \<Rightarrow> payment \<Rightarrow> bool" where
  "by_transaction_id transaction_id p \<longleftrightarrow> midtrans_transaction_id p = Some transaction_id"

text \<open>\<^verbatim>\<open>Payment.findOne({ where: { [Op.or]: [...] } })\<close>. The handler destructures
  \<^verbatim>\<open>order_id\<close> and \<^verbatim>\<open>transaction_id\<close> from the body and puts them into the query as they
  are; the query builder throws on a \<^verbatim>\<open>where\<close> value that is \<^verbatim>\<open>undefined\<close>, so a body
  that lacks one of the two keys makes the call throw (\<open>Inl ()\<close>). With both keys present
  the result is the first row that satisfies one of the three alternatives.\<close>

definition find_payment :: "wh_env \<Rightarrow> notification \<Rightarrow> payment list \<Rightarrow> unit + payment option"
  where
  "find_payment e n ps =
     (case n_order_id n of
        None \<Rightarrow> Inl ()
      | Some order_id \<Rightarrow>
          (case n_transaction_id n of
             None \<Rightarrow> Inl ()
           | Some transaction_id \<Rightarrow>
               Inr (find (\<lambda>p. by_order_id e order_id p \<or> by_midtrans_order_id order_id p \<or>
                               by_transaction_id transaction_id p) ps)))"

text \<open>JavaScript's \<^verbatim>\<open>a || b\<close> on an optional string: absent and empty strings are falsy.\<close>

definition js_or :: "string option \<Rightarrow> string option \<Rightarrow> string option" where
  "js_or a b = (case a of None \<Rightarrow> b | Some s \<Rightarrow> if s = [] then b else Some s)"

definition js_or_str :: "string option \<Rightarrow> string \<Rightarrow> string" where
  "js_or_str a b = (case a of None \<Rightarrow> b | Some s \<Rightarrow> if s = [] then b else s)"

text \<open>\<^verbatim>\<open>updateData\<close> applied to the payment that was found.\<close>

definition payment_update_data :: "wh_env \<Rightarrow> notification \<Rightarrow> payment \<Rightarrow> payment" where
  "payment_update_data e n p =
     (let ts = n_transaction_status n;
          p1 = p\<lparr> status := ts,
                  fraud_status := js_or (n_fraud_status n) (fraud_status p),
                  payment_method := js_or_str (n_payment_type n) (payment_method p),
                  midtrans_transaction_id :=
                    js_or (n_transaction_id n) (midtrans_transaction_id p),
                  signature_key := js_or (n_signature_key n) (signature_key p),
                  webhook_logs := webhook_logs p @ [(now e, n)] \<rparr>;
          p2 = (if ts = St_capture \<or> ts = St_settlement
                then p1\<lparr> payment_date := Some (now e) \<rparr> else p1)
      in if ts = St_expire then p2\<lparr> expiry_time := Some (now e) \<rparr> else p2)"

text \<open>The \<^verbatim>\<open>switch (transaction_status)\<close>: the new \<^verbatim>\<open>(status, payment_status)\<close> of the order.\<close>

fun order_switch :: "pay_status \<Rightarrow> order \<Rightarrow> order_status \<times> order_payment_status" where
  "order_switch St_settlement x =
     (if ord_status x = Os_pending then Os_confirmed else ord_status x, Ps_paid)"
| "order_switch St_capture x =
     (if ord_status x = Os_pending then Os_confirmed else ord_status x, Ps_paid)"
| "order_switch St_pending x = (ord_status x, Ps_pending)"
| "order_switch St_cancel x =
     (if ord_status x = Os_pending then Os_cancelled else ord_status x, Ps_failed)"
| "order_switch St_deny x =
     (if ord_status x = Os_pending then Os_cancelled else ord_status x, Ps_failed)"
| "order_switch St_failure x =
     (if ord_status x = Os_pending then Os_cancelled else ord_status x, Ps_failed)"
| "order_switch St_expire x =
     (if ord_status x = Os_pending then Os_cancelled else ord_status x, Ps_failed)"
| "order_switch St_refund x = (ord_status x, Ps_refunded)"
| "order_switch St_partial_refund x = (ord_status x, Ps_refunded)"

text \<open>An instance \<^verbatim>\<open>update\<close> writes the row that has the instance's primary key.\<close>

definition write_payment :: "payment \<Rightarrow> payment list \<Rightarrow> payment list" where
  "write_payment p ps = map (\<lambda>r. if pay_id r = pay_id p then p else r) ps"

definition write_order :: "order \<Rightarrow> order list \<Rightarrow> order list" where
  "write_order x os = map (\<lambda>r. if ord_id r = ord_id x then x else r) os"

definition order_by_pk :: "int \<Rightarrow> db \<Rightarrow> order option" where
  "order_by_pk k d = find (\<lambda>r. ord_id r = k) (orders d)"


text \<open>The column \<^verbatim>\<open>midtrans_transaction_id\<close> of \<^verbatim>\<open>Payment\<close> is declared \<^verbatim>\<open>unique\<close>
  (models/Payment.js). Writing \<open>q\<close> over the row \<open>p\<close> is refused by the store when it
  changes that column to a value that another row already carries; empty columns do not
  collide. No handler deletes a payment, so the rows of the table are all the rows the
  index sees.\<close>

definition unique_violation :: "payment \<Rightarrow> payment \<Rightarrow> payment list \<Rightarrow> bool" where
  "unique_violation p q ps \<longleftrightarrow>
     midtrans_transaction_id q \<noteq> midtrans_transaction_id p \<and>
     midtrans_transaction_id q \<noteq> None \<and>
     (\<exists>r \<in> set ps. pay_id r \<noteq> pay_id p \<and>
                    midtrans_transaction_id r = midtrans_transaction_id q)"

text \<open>The handler. Every throw, whether injected by the environment, raised by the query
  builder or raised by the unique index, ends in the \<^verbatim>\<open>catch\<close> block; nothing is rolled
  back, because the handler opens no transaction.\<close>

definition midtransNotification :: "wh_env \<Rightarrow> notification \<Rightarrow> db \<Rightarrow> response \<times> db" where
  "midtransNotification e n d =
     (if wh_throws e Payment_findOne then ((500, ''Webhook processing failed''), d)
      else case find_payment e n (payments d) of
        Inl u \<Rightarrow> ((500, ''Webhook processing failed''), d)
      | Inr None \<Rightarrow> ((404, ''Payment not found''), d)
      | Inr (Some p) \<Rightarrow>
          if wh_throws e Payment_update \<or>
             unique_violation p (payment_update_data e n p) (payments d)
          then ((500, ''Webhook processing failed''), d)
          else
            let d1 = d\<lparr> payments := write_payment (payment_update_data e n p) (payments d) \<rparr>
            in if wh_throws e Order_findByPk
               then ((500, ''Webhook processing failed''), d1)
               else case order_by_pk (pay_order_id p) d1 of
                 None \<Rightarrow> ((200, ''Webhook processed successfully''), d1)
               | Some x \<Rightarrow>
                   if wh_throws e Order_update
                   then ((500, ''Webhook processing failed''), d1)
                   else
                     let (newOrderStatus, newPaymentStatus) =
                           order_switch (n_transaction_status n) x
                     in ((200, ''Webhook processed successfully''),
                         d1\<lparr> orders :=
                               write_order
                                 (x\<lparr> ord_status := newOrderStatus,
                                     payment_status := newPaymentStatus \<rparr>)
                                 (orders d1) \<rparr>))"


section \<open>Checkout Orchestrator: \<^verbatim>\<open>createOrder\<close> (customer order controller)\<close>

text \<open>
  The request after express-validator: \<^verbatim>\<open>address_id\<close> is absent when the field is missing
  or not an integer, \<^verbatim>\<open>shipping_method\<close> is the trimmed text.
\<close>

record order_request =
  req_user :: int
  req_address_id :: "int option"
  req_shipping_method :: "string option"
  req_notes :: "string option"
  req_cart_item_ids :: "int list option"

text \<open>
  The store calls of the handler that can throw; a loop's call carries the number of the
  iteration. Opening, committing and rolling back the transaction are taken to succeed.
  The environment also holds the clock and the candidate that the k-th call of
  \<^verbatim>\<open>generateOrderNumber\<close> returns (a time stamp and a random suffix in the source).
\<close>

datatype co_call =
  Address_findOne | Cart_findAll | Order_findOne nat | Order_create
  | OrderItem_create nat | Product_update nat | Cart_destroy | Order_refetch

record co_env =
  co_now :: nat
  generateOrderNumber :: "nat \<Rightarrow> string"
  co_throws :: "co_call \<Rightarrow> bool"
  order_ids_used :: nat

text \<open>
  The responses of the handler. A message built from a template carries the values that
  fill it: \<^verbatim>\<open>Product "<name>" is no longer available\<close> and
  \<^verbatim>\<open>Insufficient stock for "<name>". Available: <stock_quantity>\<close>.
\<close>

datatype co_response =
  R_validation_failed
  | R_address_not_found
  | R_no_items_in_cart
  | R_product_unavailable string
  | R_insufficient_stock string int
  | R_order_number_failed
  | R_failed_to_create_order
  | R_order_created order "order_item list"

fun co_status :: "co_response \<Rightarrow> nat" where
  "co_status R_validation_failed = 400"
| "co_status R_address_not_found = 404"
| "co_status R_no_items_in_cart = 400"
| "co_status (R_product_unavailable nm) = 400"
| "co_status (R_insufficient_stock nm avail) = 400"
| "co_status R_order_number_failed = 500"
| "co_status R_failed_to_create_order = 500"
| "co_status (R_order_created x its) = 201"

text \<open>How the handler leaves the transaction it opened.\<close>

datatype tx_end = Tx_rollback | Tx_commit | Tx_open

definition valid_request :: "order_request \<Rightarrow> bool" where
  "valid_request r \<longleftrightarrow>
     req_address_id r \<noteq> None \<and>
     (case req_shipping_method r of None \<Rightarrow> True
      | Some s \<Rightarrow> 1 \<le> length s \<and> length s \<le> 100)"

text \<open>\<^verbatim>\<open>Cart.findAll\<close> with the product included: the listed lines of the caller when the list
  is present and not empty, all lines of the caller otherwise.\<close>

definition select_cart_lines :: "order_request \<Rightarrow> cart_line list \<Rightarrow> cart_line list" where
  "select_cart_lines r cs =
     (case req_cart_item_ids r of
        None \<Rightarrow> filter (\<lambda>c. cart_user_id c = req_user r) cs
      | Some ids \<Rightarrow>
          if length ids > 0
          then filter (\<lambda>c. cart_id c \<in> set ids \<and> cart_user_id c = req_user r) cs
          else filter (\<lambda>c. cart_user_id c = req_user r) cs)"

definition include_product :: "product list \<Rightarrow> cart_line \<Rightarrow> cart_line \<times> product option" where
  "include_product ps c = (c, find (\<lambda>p. prod_id p = cart_product_id c) ps)"

text \<open>The cart lines that a request selects, each with the product the store holds for it.\<close>

definition cartItems_of :: "order_request \<Rightarrow> db \<Rightarrow> (cart_line \<times> product option) list" where
  "cartItems_of r d = map (include_product (products d)) (select_cart_lines r (cart d))"

text \<open>The validation loop: the first offending line decides the rejection.\<close>

fun validate_items ::
  "(cart_line \<times> product option) list \<Rightarrow> int \<Rightarrow> (cart_line \<times> product option) list \<Rightarrow>
   co_response + int \<times> (cart_line \<times> product option) list" where
  "validate_items [] subtot valid = Inr (subtot, valid)"
| "validate_items ((c, po) # rest) subtot valid =
     (case po of
        None \<Rightarrow> Inl (R_product_unavailable ''Unknown'')
      | Some p \<Rightarrow>
          if \<not> is_active p
          then Inl (R_product_unavailable (if name p = [] then ''Unknown'' else name p))
          else if stock_quantity p < quantity c
          then Inl (R_insufficient_stock (name p) (stock_quantity p))
          else validate_items rest (subtot + price p * quantity c) (valid @ [(c, po)]))"

text \<open>The loop \<^verbatim>\<open>while (orderExists && attempts < 10)\<close>, by the attempts that remain: the
  candidate that no order carries, or none when every attempt met an existing order.\<close>

fun order_number_loop ::
  "co_env \<Rightarrow> order list \<Rightarrow> nat \<Rightarrow> nat \<Rightarrow> unit + string option" where
  "order_number_loop e os attempts 0 = Inr None"
| "order_number_loop e os attempts (Suc k) =
     (if co_throws e (Order_findOne attempts) then Inl ()
      else if \<exists>x \<in> set os. order_number x = generateOrderNumber e attempts
      then order_number_loop e os (Suc attempts) k
      else Inr (Some (generateOrderNumber e attempts)))"

text \<open>The key that the database gives to a new row. The counter of an auto-increment
  column lies above every key of the table, and above the keys of rows that were deleted or
  whose insertion was rolled back; how far above, the table does not tell, so the number of
  keys already used up beyond the greatest key of the table comes with the environment of
  the call.\<close>

definition next_id :: "nat \<Rightarrow> int list \<Rightarrow> int" where
  "next_id used ks = fold max ks 0 + 1 + int used"

definition set_stock :: "int \<Rightarrow> int \<Rightarrow> product list \<Rightarrow> product list" where
  "set_stock k v ps = map (\<lambda>r. if prod_id r = k then r\<lparr> stock_quantity := v \<rparr> else r) ps"

text \<open>The row that \<^verbatim>\<open>OrderItem.create\<close> receives for a cart line and its product.\<close>

definition order_item_of :: "int \<Rightarrow> cart_line \<Rightarrow> product \<Rightarrow> order_item" where
  "order_item_of oid c p =
     \<lparr> item_order_id = oid, item_product_id = prod_id p, item_quantity = quantity c,
       unit_price = price p, total_price = price p * quantity c, product_name = name p,
       product_sku = sku p \<rparr>"

text \<open>The second loop: one order item per line, then the stock of the line's product, computed
  from the product as the cart query loaded it. A call that throws leaves the loop with the
  state written so far.\<close>

fun create_items ::
  "co_env \<Rightarrow> int \<Rightarrow> nat \<Rightarrow> (cart_line \<times> product option) list \<Rightarrow> db \<Rightarrow> order_item list \<Rightarrow>
   db + order_item list \<times> db" where
  "create_items e oid i [] d orderItems = Inr (orderItems, d)"
| "create_items e oid i ((c, po) # rest) d orderItems =
     (case po of
        None \<Rightarrow> Inl d
      | Some p \<Rightarrow>
          if co_throws e (OrderItem_create i) then Inl d
          else
            let orderItem = order_item_of oid c p;
                d1 = d\<lparr> order_items := order_items d @ [orderItem] \<rparr>
            in if co_throws e (Product_update i) then Inl d1
               else create_items e oid (Suc i) rest
                      (d1\<lparr> products :=
                            set_stock (prod_id p) (stock_quantity p - quantity c) (products d1) \<rparr>)
                      (orderItems @ [orderItem]))"

text \<open>The row that \<^verbatim>\<open>Order.create\<close> stores: the values the handler passes, the fresh primary
  key, and the defaults of the model (\<^verbatim>\<open>status\<close> and \<^verbatim>\<open>payment_status\<close> are
  \<^verbatim>\<open>'pending'\<close>).\<close>

definition new_order ::
  "co_env \<Rightarrow> order_request \<Rightarrow> int \<Rightarrow> address \<Rightarrow> string \<Rightarrow> int \<Rightarrow> int \<Rightarrow> int \<Rightarrow> int \<Rightarrow> int \<Rightarrow>
   order" where
  "new_order e r k a orderNumber subtot shipping tax discount tot =
     \<lparr> ord_id = k,
       order_number = orderNumber,
       ord_user_id = req_user r,
       ord_address_id = addr_id a,
       ord_status = Os_pending,
       subtotal = subtot,
       shipping_cost = shipping,
       tax_amount = tax,
       discount_amount = discount,
       total_amount = tot,
       payment_status = Ps_pending,
       shipping_method = req_shipping_method r,
       ord_notes = req_notes r,
       ordered_at = co_now e \<rparr>"

text \<open>The body of the handler inside the transaction: the response, how the transaction
  ends, and the state the transaction has written.\<close>

definition createOrder_tx ::
  "co_env \<Rightarrow> order_request \<Rightarrow> db \<Rightarrow> co_response \<times> tx_end \<times> db" where
  "createOrder_tx e r d =
     (if \<not> valid_request r then (R_validation_failed, Tx_open, d)
      else if co_throws e Address_findOne then (R_failed_to_create_order, Tx_rollback, d)
      else case find (\<lambda>a. Some (addr_id a) = req_address_id r \<and> addr_user_id a = req_user r \<and>
                          addr_is_active a) (addresses d) of
        None \<Rightarrow> (R_address_not_found, Tx_rollback, d)
      | Some a \<Rightarrow>
          if co_throws e Cart_findAll then (R_failed_to_create_order, Tx_rollback, d)
          else
            let cartItems = cartItems_of r d
            in if length cartItems = 0 then (R_no_items_in_cart, Tx_rollback, d)
               else case validate_items cartItems 0 [] of
                 Inl rejection \<Rightarrow> (rejection, Tx_rollback, d)
               | Inr (subtot, validCartItems) \<Rightarrow>
                   let shipping = 0; tax = 0; discount = 0;
                       tot = subtot + shipping + tax - discount
                   in case order_number_loop e (orders d) 0 10 of
                     Inl u \<Rightarrow> (R_failed_to_create_order, Tx_rollback, d)
                   | Inr None \<Rightarrow> (R_order_number_failed, Tx_rollback, d)
                   | Inr (Some orderNumber) \<Rightarrow>
                       if co_throws e Order_create
                       then (R_failed_to_create_order, Tx_rollback, d)
                       else
                         let x = new_order e r (next_id (order_ids_used e) (map ord_id (orders d))) a
                                   orderNumber subtot shipping tax discount tot;
                             d1 = d\<lparr> orders := orders d @ [x] \<rparr>
                         in case create_items e (ord_id x) 0 validCartItems d1 [] of
                           Inl dw \<Rightarrow> (R_failed_to_create_order, Tx_rollback, dw)
                         | Inr (orderItems, d2) \<Rightarrow>
                             if co_throws e Cart_destroy
                             then (R_failed_to_create_order, Tx_rollback, d2)
                             else
                               let d3 = d2\<lparr> cart :=
                                     filter (\<lambda>c. \<not> (cart_id c \<in> set (map (cart_id \<circ> fst) validCartItems)
                                                    \<and> cart_user_id c = req_user r)) (cart d2) \<rparr>
                               in if co_throws e Order_refetch
                                  then (R_failed_to_create_order, Tx_commit, d3)
                                  else (R_order_created x
                                          (filter (\<lambda>it. item_order_id it = ord_id x) (order_items d3)),
                                        Tx_commit, d3))"

text \<open>What the store shows after the call: the writes of a committed transaction, and
  nothing of a transaction that was rolled back or left open.\<close>

definition createOrder :: "co_env \<Rightarrow> order_request \<Rightarrow> db \<Rightarrow> co_response \<times> db" where
  "createOrder e r d =
     (case createOrder_tx e r d of
        (resp, Tx_commit, d') \<Rightarrow> (resp, d')
      | (resp, Tx_rollback, d') \<Rightarrow> (resp, d)
      | (resp, Tx_open, d') \<Rightarrow> (resp, d))"


section \<open>Order Cancellation: \<^verbatim>\<open>cancelOrder\<close> (customer order controller)\<close>

text \<open>The request after express-validator: the order id is absent when the path parameter is
  not an integer. The handler reads the order and checks its status before it opens the
  transaction; the writes all belong to the transaction.\<close>

record cancel_request =
  can_user :: int
  can_order_id :: "int option"

datatype ca_call =
  Ca_Order_findOne | Ca_Order_update_status | Ca_Product_findByPk nat | Ca_Product_update nat
  | Ca_Order_update_payment_status

text \<open>The loop over \<^verbatim>\<open>order.items\<close>: each product is read again inside the transaction; an
  item whose product is gone is skipped.\<close>

fun restore_stock ::
  "(ca_call \<Rightarrow> bool) \<Rightarrow> nat \<Rightarrow> order_item list \<Rightarrow> product list \<Rightarrow>
   product list + product list" where
  "restore_stock throws i [] ps = Inr ps"
| "restore_stock throws i (orderItem # rest) ps =
     (if throws (Ca_Product_findByPk i) then Inl ps
      else case find (\<lambda>p. prod_id p = item_product_id orderItem) ps of
        None \<Rightarrow> restore_stock throws (Suc i) rest ps
      | Some p \<Rightarrow>
          if throws (Ca_Product_update i) then Inl ps
          else restore_stock throws (Suc i) rest
                 (set_stock (prod_id p) (stock_quantity p + item_quantity orderItem) ps))"

definition cancelOrder_tx ::
  "(ca_call \<Rightarrow> bool) \<Rightarrow> order \<Rightarrow> db \<Rightarrow> response \<times> tx_end \<times> db" where
  "cancelOrder_tx throws x d =
     (if throws Ca_Order_update_status
      then ((500, ''Failed to cancel order''), Tx_rollback, d)
      else
        let x1 = x\<lparr> ord_status := Os_cancelled \<rparr>;
            d1 = d\<lparr> orders := write_order x1 (orders d) \<rparr>
        in case restore_stock throws 0
                  (filter (\<lambda>it. item_order_id it = ord_id x) (order_items d)) (products d1) of
          Inl ps \<Rightarrow> ((500, ''Failed to cancel order''), Tx_rollback, d1\<lparr> products := ps \<rparr>)
        | Inr ps \<Rightarrow>
            let d2 = d1\<lparr> products := ps \<rparr>
            in if payment_status x1 = Ps_pending
               then if throws Ca_Order_update_payment_status
                    then ((500, ''Failed to cancel order''), Tx_rollback, d2)
                    else ((200, ''Order cancelled successfully''), Tx_commit,
                          d2\<lparr> orders :=
                                write_order (x1\<lparr> payment_status := Ps_failed \<rparr>) (orders d2) \<rparr>)
               else ((200, ''Order cancelled successfully''), Tx_commit, d2))"

definition cancelOrder ::
  "(ca_call \<Rightarrow> bool) \<Rightarrow> cancel_request \<Rightarrow> db \<Rightarrow> response \<times> db" where
  "cancelOrder throws r d =
     (case can_order_id r of
        None \<Rightarrow> ((400, ''Validation failed''), d)
      | Some k \<Rightarrow>
          if throws Ca_Order_findOne then ((500, ''Failed to cancel order''), d)
          else case find (\<lambda>x. ord_id x = k \<and> ord_user_id x = can_user r) (orders d) of
            None \<Rightarrow> ((404, ''Order not found''), d)
          | Some x \<Rightarrow>
              if \<not> (ord_status x = Os_pending \<or> ord_status x = Os_confirmed)
              then ((400, ''Order cannot be cancelled at this stage''), d)
              else case cancelOrder_tx throws x d of
                (resp, Tx_commit, d') \<Rightarrow> (resp, d')
              | (resp, Tx_rollback, d') \<Rightarrow> (resp, d)
              | (resp, Tx_open, d') \<Rightarrow> (resp, d))"

text \<open>The quantity that a list of order items holds of a product.\<close>

definition restored :: "order_item list \<Rightarrow> product \<Rightarrow> int" where
  "restored its p = sum_list (map item_quantity (filter (\<lambda>it. item_product_id it = prod_id p) its))"

section \<open>Payment Initiator: \<^verbatim>\<open>createPayment\<close> (customer payment controller)\<close>

text \<open>
  \<^verbatim>\<open>createTransaction\<close> of the Midtrans utility catches every error of the gateway client
  and returns \<^verbatim>\<open>{ success, data | error }\<close>; the environment gives its answer to the order
  reference and the gross amount (\<^verbatim>\<open>parseInt(order.total_amount)\<close>). The customer details
  of the request, read from the included user, are not modelled.
\<close>

datatype gateway_result = Gw_success string "string option" | Gw_failure string

datatype cp_call = Cp_Order_findOne | Cp_Payment_findOne | Cp_Payment_create

record cp_env =
  createTransaction :: "string \<Rightarrow> int \<Rightarrow> gateway_result"
  cp_throws :: "cp_call \<Rightarrow> bool"
  payment_ids_used :: nat

record payment_request =
  pr_user :: int
  pr_order_id :: "int option"

datatype cp_response =
  Cp_validation_failed
  | Cp_order_not_found
  | Cp_payment_exists
  | Cp_order_not_pending
  | Cp_gateway_failed string
  | Cp_failed_to_create_payment
  | Cp_payment_created payment string

fun cp_status :: "cp_response \<Rightarrow> nat" where
  "cp_status Cp_validation_failed = 400"
| "cp_status Cp_order_not_found = 404"
| "cp_status Cp_payment_exists = 409"
| "cp_status Cp_order_not_pending = 400"
| "cp_status (Cp_gateway_failed err) = 500"
| "cp_status Cp_failed_to_create_payment = 500"
| "cp_status (Cp_payment_created p token) = 201"

definition createPayment :: "cp_env \<Rightarrow> payment_request \<Rightarrow> db \<Rightarrow> cp_response \<times> db" where
  "createPayment e r d =
     (case pr_order_id r of
        None \<Rightarrow> (Cp_validation_failed, d)
      | Some order_id \<Rightarrow>
          if cp_throws e Cp_Order_findOne then (Cp_failed_to_create_payment, d)
          else case find (\<lambda>x. ord_id x = order_id \<and> ord_user_id x = pr_user r) (orders d) of
            None \<Rightarrow> (Cp_order_not_found, d)
          | Some x \<Rightarrow>
              if cp_throws e Cp_Payment_findOne then (Cp_failed_to_create_payment, d)
              else case find (\<lambda>p. pay_order_id p = order_id) (payments d) of
                Some existingPayment \<Rightarrow> (Cp_payment_exists, d)
              | None \<Rightarrow>
                  if ord_status x \<noteq> Os_pending then (Cp_order_not_pending, d)
                  else case createTransaction e (order_number x) (total_amount x div 100) of
                    Gw_failure err \<Rightarrow> (Cp_gateway_failed err, d)
                  | Gw_success token redirect_url \<Rightarrow>
                      if cp_throws e Cp_Payment_create then (Cp_failed_to_create_payment, d)
                      else
                        let p = \<lparr> pay_id = next_id (payment_ids_used e) (map pay_id (payments d)),
                                  pay_order_id = ord_id x,
                                  pay_user_id = pr_user r,
                                  payment_method = ''midtrans'',
                                  midtrans_transaction_id = None,
                                  midtrans_order_id = Some (order_number x),
                                  amount = total_amount x,
                                  status = St_pending,
                                  fraud_status = None,
                                  payment_date = None,
                                  expiry_time = None,
                                  payment_url = redirect_url,
                                  signature_key = None,
                                  webhook_logs = [] \<rparr>
                        in (Cp_payment_created p token, d\<lparr> payments := payments d @ [p] \<rparr>))"


section \<open>Notions used in the statements about checkout\<close>

text \<open>The lines whose product exists, paired with it; the price of a line; the quantity that
  a list of cart lines asks of a product; and the stock writes of the second loop.\<close>

fun with_product :: "(cart_line \<times> product option) list \<Rightarrow> (cart_line \<times> product) list" where
  "with_product [] = []"
| "with_product ((c, None) # rest) = with_product rest"
| "with_product ((c, Some p) # rest) = (c, p) # with_product rest"

definition line_total :: "cart_line \<times> product \<Rightarrow> int" where
  "line_total cp = price (snd cp) * quantity (fst cp)"

definition reserved :: "(cart_line \<times> product) list \<Rightarrow> product \<Rightarrow> int" where
  "reserved cps r =
     sum_list (map (quantity \<circ> fst) (filter (\<lambda>cp. prod_id (snd cp) = prod_id r) cps))"

definition stock_writes :: "(cart_line \<times> product) list \<Rightarrow> product list \<Rightarrow> product list" where
  "stock_writes cps ps =
     fold (\<lambda>cp. set_stock (prod_id (snd cp)) (stock_quantity (snd cp) - quantity (fst cp))) cps ps"

text \<open>The store after a checkout of the selected lines that created the order \<open>x\<close>.\<close>

definition checked_out :: "order_request \<Rightarrow> db \<Rightarrow> order \<Rightarrow> db" where
  "checked_out r d x =
     d\<lparr> orders := orders d @ [x],
        order_items := order_items d @
          map (\<lambda>cp. order_item_of (ord_id x) (fst cp) (snd cp)) (with_product (cartItems_of r d)),
        products := stock_writes (with_product (cartItems_of r d)) (products d),
        cart := filter (\<lambda>c. c \<notin> set (select_cart_lines r (cart d))) (cart d) \<rparr>"

section \<open>The lookup as the specification words it\<close>



section \<open>Sample data\<close>

text \<open>A small store on which the theorems below are instantiated: one product with three
  units in stock, one customer (user 3) with an address, a cart line and a paid order.\<close>

definition ex_product :: product where
  "ex_product = \<lparr> prod_id = 11, name = ''Cat food'', price = 10000000, sku = Some ''CF-1'',
     stock_quantity = 3, is_active = True \<rparr>"

definition ex_cart_line :: cart_line where
  "ex_cart_line = \<lparr> cart_id = 21, cart_user_id = 3, cart_product_id = 11, quantity = 3 \<rparr>"

definition ex_address :: address where
  "ex_address = \<lparr> addr_id = 5, addr_user_id = 3, addr_is_active = True \<rparr>"

definition ex_order :: order where
  "ex_order = \<lparr> ord_id = 7, order_number = ''ORD-1'', ord_user_id = 3, ord_address_id = 5,
     ord_status = Os_confirmed, subtotal = 20000000, shipping_cost = 0, tax_amount = 0,
     discount_amount = 0, total_amount = 20000000, payment_status = Ps_paid,
     shipping_method = None, ord_notes = None, ordered_at = 10 \<rparr>"

definition ex_order_item :: order_item where
  "ex_order_item = \<lparr> item_order_id = 7, item_product_id = 11, item_quantity = 2,
     unit_price = 10000000, total_price = 20000000, product_name = ''Cat food'',
     product_sku = Some ''CF-1'' \<rparr>"

definition ex_payment :: payment where
  "ex_payment = \<lparr> pay_id = 1, pay_order_id = 7, pay_user_id = 3, payment_method = ''midtrans'',
     midtrans_transaction_id = None, midtrans_order_id = Some ''ORD-1'', amount = 20000000,
     status = St_settlement, fraud_status = None, payment_date = Some 20, expiry_time = None,
     payment_url = None, signature_key = None, webhook_logs = [] \<rparr>"

definition ex_db :: db where
  "ex_db = \<lparr> products = [ex_product], cart = [ex_cart_line], addresses = [ex_address],
     orders = [ex_order], order_items = [ex_order_item], payments = [ex_payment] \<rparr>"

definition ex_wh_env :: wh_env where
  "ex_wh_env = \<lparr> now = 100, as_id = (\<lambda>s. None), wh_throws = (\<lambda>c. False) \<rparr>"

text \<open>A stale \<^verbatim>\<open>pending\<close> notification for the settled payment of the sample store.\<close>

definition ex_notification :: notification where
  "ex_notification = \<lparr> n_order_id = Some ''ORD-1'', n_transaction_id = Some ''t-1'',
     n_transaction_status = St_pending, n_fraud_status = None, n_payment_type = None,
     n_signature_key = None \<rparr>"

text \<open>Two pending payments of two orders, and notifications that carry the gateway order id
  of one of them together with the gateway transaction id of the other.\<close>

definition ex_pay_a :: payment where
  "ex_pay_a = \<lparr> pay_id = 1, pay_order_id = 7, pay_user_id = 3, payment_method = ''midtrans'',
     midtrans_transaction_id = Some ''t1'', midtrans_order_id = Some ''ORD-A'', amount = 500,
     status = St_pending, fraud_status = None, payment_date = None, expiry_time = None,
     payment_url = None, signature_key = None, webhook_logs = [] \<rparr>"

definition ex_pay_b :: payment where
  "ex_pay_b = \<lparr> pay_id = 2, pay_order_id = 8, pay_user_id = 3, payment_method = ''midtrans'',
     midtrans_transaction_id = Some ''t2'', midtrans_order_id = Some ''ORD-B'', amount = 900,
     status = St_pending, fraud_status = None, payment_date = None, expiry_time = None,
     payment_url = None, signature_key = None, webhook_logs = [] \<rparr>"

definition ex_cross :: notification where
  "ex_cross = \<lparr> n_order_id = Some ''ORD-B'', n_transaction_id = Some ''t1'',
     n_transaction_status = St_settlement, n_fraud_status = None, n_payment_type = None,
     n_signature_key = None \<rparr>"

definition ex_cross_rev :: notification where
  "ex_cross_rev = \<lparr> n_order_id = Some ''ORD-A'', n_transaction_id = Some ''t2'',
     n_transaction_status = St_settlement, n_fraud_status = None, n_payment_type = None,
     n_signature_key = None \<rparr>"

definition ex_two_db :: db where
  "ex_two_db = ex_db\<lparr> payments := [ex_pay_a, ex_pay_b] \<rparr>"

definition ex_unknown :: notification where
  "ex_unknown = \<lparr> n_order_id = Some ''UNKNOWN-ORDER-123'',
     n_transaction_id = Some ''unknown-transaction'', n_transaction_status = St_settlement,
     n_fraud_status = Some ''accept'', n_payment_type = Some ''credit_card'',
     n_signature_key = None \<rparr>"

text \<open>A body that carries nothing but the status.\<close>

definition ex_malformed :: notification where
  "ex_malformed = \<lparr> n_order_id = None, n_transaction_id = None,
     n_transaction_status = St_settlement, n_fraud_status = None, n_payment_type = None,
     n_signature_key = None \<rparr>"

text \<open>The sample store with its order and payment still pending, an \<^verbatim>\<open>expire\<close> notification
  for that payment, and the owner's request to cancel the order.\<close>

definition ex_pending_order :: order where
  "ex_pending_order = ex_order\<lparr> ord_status := Os_pending, payment_status := Ps_pending \<rparr>"

definition ex_pending_payment :: payment where
  "ex_pending_payment = ex_payment\<lparr> status := St_pending, payment_date := None \<rparr>"

definition ex_pending_db :: db where
  "ex_pending_db = ex_db\<lparr> orders := [ex_pending_order], payments := [ex_pending_payment] \<rparr>"

definition ex_expire :: notification where
  "ex_expire = ex_notification\<lparr> n_transaction_status := St_expire \<rparr>"

definition ex_cancel_request :: cancel_request where
  "ex_cancel_request = \<lparr> can_user = 3, can_order_id = Some 7 \<rparr>"

text \<open>A \<^verbatim>\<open>settlement\<close> notification for the pending payment, and a later reading of the
  clock for its second delivery.\<close>

definition ex_settlement :: notification where
  "ex_settlement = ex_notification\<lparr> n_transaction_status := St_settlement \<rparr>"

definition ex_wh_env_later :: wh_env where
  "ex_wh_env_later = ex_wh_env\<lparr> now := 200 \<rparr>"

text \<open>A gateway that accepts every transaction, and the request of user 3 to pay order 7.\<close>

definition ex_cp_env :: cp_env where
  "ex_cp_env = \<lparr> createTransaction =
       (\<lambda>ref gross. Gw_success ''test-token-123'' (Some ''https://pay.example/test-token-123'')),
     cp_throws = (\<lambda>c. False), payment_ids_used = 0 \<rparr>"

definition ex_payment_request :: payment_request where
  "ex_payment_request = \<lparr> pr_user = 3, pr_order_id = Some 7 \<rparr>"

text \<open>The sample store with its order pending and not yet paid for.\<close>

definition ex_unpaid_db :: db where
  "ex_unpaid_db = ex_db\<lparr> orders := [ex_pending_order], payments := [] \<rparr>"

text \<open>The checkout of the whole cart of user 3 to address 5; an order number generator and
  a store that do not fail; the same with the re-read of the created order throwing, and
  with the first stock update throwing; and the sample store with five units in the cart
  line, two more than the stock.\<close>

definition ex_order_request :: order_request where
  "ex_order_request = \<lparr> req_user = 3, req_address_id = Some 5, req_shipping_method = None,
     req_notes = None, req_cart_item_ids = None \<rparr>"

definition ex_co_env :: co_env where
  "ex_co_env = \<lparr> co_now = 50, generateOrderNumber = (\<lambda>k. ''ORD-2''),
     co_throws = (\<lambda>c. False), order_ids_used = 0 \<rparr>"

definition ex_co_env_refetch :: co_env where
  "ex_co_env_refetch = ex_co_env\<lparr> co_throws := (\<lambda>c. c = Order_refetch) \<rparr>"

definition ex_co_env_item :: co_env where
  "ex_co_env_item = ex_co_env\<lparr> co_throws := (\<lambda>c. c = Product_update 0) \<rparr>"

definition ex_short_db :: db where
  "ex_short_db = ex_db\<lparr> cart := [ex_cart_line\<lparr> quantity := 5 \<rparr>] \<rparr>"

lemmas ex_defs =
  ex_product_def ex_cart_line_def ex_address_def ex_order_def ex_order_item_def
  ex_payment_def ex_db_def ex_wh_env_def ex_notification_def
  ex_pay_a_def ex_pay_b_def ex_cross_def ex_cross_rev_def ex_unknown_def
  ex_pending_order_def ex_pending_payment_def ex_pending_db_def ex_expire_def
  ex_cancel_request_def ex_settlement_def ex_wh_env_later_def
  ex_cp_env_def ex_payment_request_def ex_two_db_def ex_malformed_def ex_unpaid_db_def

lemmas co_defs = ex_order_request_def ex_co_env_def ex_co_env_refetch_def ex_co_env_item_def ex_short_db_def

section \<open>Properties of the Notification Reconciler\<close>







lemma pay_id_update_data [simp]: "pay_id (payment_update_data e n p) = pay_id p"
  by (simp add: payment_update_data_def Let_def)

lemma pay_order_id_update_data [simp]:
  "pay_order_id (payment_update_data e n p) = pay_order_id p"
  by (simp add: payment_update_data_def Let_def)

lemma status_update_data [simp]: "status (payment_update_data e n p) = n_transaction_status n"
  by (simp add: payment_update_data_def Let_def)










lemmas key_defs = find_payment_def by_order_id_def by_midtrans_order_id_def by_transaction_id_def




section \<open>The reconciler and the inventory\<close>

lemma midtransNotification_shape:
  "(\<exists>r. midtransNotification e n d = (r, d)) \<or>
   (\<exists>r p. find_payment e n (payments d) = Inr (Some p) \<and>
      (midtransNotification e n d =
         (r, d\<lparr> payments := write_payment (payment_update_data e n p) (payments d) \<rparr>) \<or>
       (\<exists>x. order_by_pk (pay_order_id p) d = Some x \<and>
          midtransNotification e n d =
            (r, d\<lparr> payments := write_payment (payment_update_data e n p) (payments d),
                   orders := write_order
                     (x\<lparr> ord_status := fst (order_switch (n_transaction_status n) x),
                         payment_status := snd (order_switch (n_transaction_status n) x) \<rparr>)
                     (orders d) \<rparr>))))"
  by (auto simp: midtransNotification_def order_by_pk_def Let_def
      split: option.splits prod.splits sum.splits)

lemma length_write_payment [simp]: "length (write_payment q ps) = length ps"
  by (simp add: write_payment_def)

lemma length_write_order [simp]: "length (write_order y os) = length os"
  by (simp add: write_order_def)

lemma nth_write_payment:
  "i < length ps \<Longrightarrow> pay_id (ps ! i) \<noteq> pay_id q \<Longrightarrow> write_payment q ps ! i = ps ! i"
  by (simp add: write_payment_def)

lemma nth_write_order:
  "i < length os \<Longrightarrow> ord_id (os ! i) \<noteq> ord_id y \<Longrightarrow> write_order y os ! i = os ! i"
  by (simp add: write_order_def)

lemma find_pk_unique:
  assumes "distinct (map ord_id os)" and "find (\<lambda>r. ord_id r = k) os = Some x"
    and "r \<in> set os" and "ord_id r = k"
  shows "r = x"
proof -
  have "x \<in> set os" and "ord_id x = k" using assms(2) by (auto simp: find_Some_iff)
  moreover have "inj_on ord_id (set os)" using assms(1) by (simp add: distinct_map)
  ultimately show ?thesis using assms(3,4) by (auto dest: inj_onD)
qed

lemma write_order_other_fields:
  assumes "distinct (map ord_id os)" and "find (\<lambda>r. ord_id r = k) os = Some x"
  shows "map (\<lambda>r. r\<lparr> ord_status := s0, payment_status := p0 \<rparr>)
           (write_order (x\<lparr> ord_status := s, payment_status := q \<rparr>) os) =
         map (\<lambda>r. r\<lparr> ord_status := s0, payment_status := p0 \<rparr>) os"
proof -
  have k: "ord_id x = k" using assms(2) by (auto simp: find_Some_iff)
  show ?thesis
    unfolding write_order_def map_map
    by (rule map_cong [OF refl]) (auto simp: k dest: find_pk_unique [OF assms])
qed

text \<open>
  Claim C9. Whatever the notification and whichever store call throws, the handler leaves
  the products (hence every \<^verbatim>\<open>stock_quantity\<close>), the cart, the order items and the addresses
  as they were, also when it moves a pending order to cancelled. It adds and removes no
  payment and no order; a notification that resolves to no payment, or whose lookup throws,
  changes nothing; one that resolves to the payment \<open>p\<close> leaves every payment with another id
  and every order other than the order of \<open>p\<close> untouched, and (primary keys being distinct)
  changes at most the \<^verbatim>\<open>status\<close> and \<^verbatim>\<open>payment_status\<close> columns of orders.
\<close>

theorem C9_webhook_leaves_stock:
  "products (snd (midtransNotification e n d)) = products d \<and>
   cart (snd (midtransNotification e n d)) = cart d \<and>
   order_items (snd (midtransNotification e n d)) = order_items d \<and>
   addresses (snd (midtransNotification e n d)) = addresses d \<and>
   length (payments (snd (midtransNotification e n d))) = length (payments d) \<and>
   length (orders (snd (midtransNotification e n d))) = length (orders d) \<and>
   (find_payment e n (payments d) = Inr None \<longrightarrow> snd (midtransNotification e n d) = d) \<and>
   (find_payment e n (payments d) = Inl () \<longrightarrow> snd (midtransNotification e n d) = d) \<and>
   (\<forall>p. find_payment e n (payments d) = Inr (Some p) \<longrightarrow>
      (\<forall>i < length (payments d). pay_id (payments d ! i) \<noteq> pay_id p \<longrightarrow>
         payments (snd (midtransNotification e n d)) ! i = payments d ! i) \<and>
      (\<forall>i < length (orders d). ord_id (orders d ! i) \<noteq> pay_order_id p \<longrightarrow>
         orders (snd (midtransNotification e n d)) ! i = orders d ! i)) \<and>
   (distinct (map ord_id (orders d)) \<longrightarrow>
      map (\<lambda>r. r\<lparr> ord_status := Os_pending, payment_status := Ps_pending \<rparr>)
        (orders (snd (midtransNotification e n d))) =
      map (\<lambda>r. r\<lparr> ord_status := Os_pending, payment_status := Ps_pending \<rparr>) (orders d))"
  using midtransNotification_shape [of e n d]
  apply (elim disjE exE conjE)
    apply (simp_all add: nth_write_payment nth_write_order)
   apply (auto simp: order_by_pk_def nth_write_order write_order_other_fields find_Some_iff)
  done

text \<open>On the sample store with a pending order, an \<^verbatim>\<open>expire\<close> notification cancels the order
  and the stock stays at 3, where \<open>cancelOrder\<close> on the same store restores the two reserved
  units. A notification for an unknown order and a body without keys change nothing.\<close>

theorem C9_webhook_leaves_stock_witness:
  "find_payment ex_wh_env ex_expire (payments ex_pending_db) = Inr (Some ex_pending_payment) \<and>
   distinct (map ord_id (orders ex_pending_db)) \<and>
   map ord_status (orders ex_pending_db) = [Os_pending] \<and>
   map ord_status (orders (snd (midtransNotification ex_wh_env ex_expire ex_pending_db))) =
     [Os_cancelled] \<and>
   map stock_quantity (products (snd (midtransNotification ex_wh_env ex_expire ex_pending_db))) =
     [3] \<and>
   map stock_quantity (products (snd (cancelOrder (\<lambda>c. False) ex_cancel_request ex_pending_db))) =
     [5] \<and>
   find_payment ex_wh_env ex_unknown (payments ex_db) = Inr None \<and>
   snd (midtransNotification ex_wh_env ex_unknown ex_db) = ex_db \<and>
   find_payment ex_wh_env ex_malformed (payments ex_db) = Inl () \<and>
   snd (midtransNotification ex_wh_env ex_malformed ex_db) = ex_db"
proof -
  have a: "map ord_status (orders (snd (midtransNotification ex_wh_env ex_expire ex_pending_db))) =
     [Os_cancelled]"
    by (simp add: ex_defs key_defs midtransNotification_def payment_update_data_def
        unique_violation_def write_payment_def write_order_def order_by_pk_def js_or_def
        js_or_str_def Let_def)
  have b: "map stock_quantity
      (products (snd (cancelOrder (\<lambda>c. False) ex_cancel_request ex_pending_db))) = [5]"
    by (simp add: ex_defs cancelOrder_def cancelOrder_tx_def write_order_def set_stock_def
        Let_def)
  have c: "find_payment ex_wh_env ex_unknown (payments ex_db) = Inr None"
    "find_payment ex_wh_env ex_malformed (payments ex_db) = Inl ()"
    by (simp_all add: ex_defs key_defs)
  have d: "find_payment ex_wh_env ex_expire (payments ex_pending_db) =
      Inr (Some ex_pending_payment)"
    "distinct (map ord_id (orders ex_pending_db))"
    "map ord_status (orders ex_pending_db) = [Os_pending]"
    "map stock_quantity (products ex_pending_db) = [3]"
    by (simp_all add: ex_defs key_defs)
  note t1 = C9_webhook_leaves_stock [of ex_wh_env ex_expire ex_pending_db]
  note t2 = C9_webhook_leaves_stock [of ex_wh_env ex_unknown ex_db]
  note t3 = C9_webhook_leaves_stock [of ex_wh_env ex_malformed ex_db]
  have p: "map stock_quantity
      (products (snd (midtransNotification ex_wh_env ex_expire ex_pending_db))) = [3]"
    using t1 [THEN conjunct1] d(4) by simp
  have u: "snd (midtransNotification ex_wh_env ex_unknown ex_db) = ex_db"
    using t2 c(1) by blast
  have m: "snd (midtransNotification ex_wh_env ex_malformed ex_db) = ex_db"
    using t3 c(2) by blast
  from a b c d(1-3) p u m show ?thesis by blast
qed

section \<open>The lookup of the reconciler\<close>










section \<open>Repeated notifications\<close>









section \<open>Properties of the Payment Initiator\<close>

lemma createPayment_unfold:
  "createPayment e r d =
     (case pr_order_id r of
        None \<Rightarrow> (Cp_validation_failed, d)
      | Some k \<Rightarrow>
          if cp_throws e Cp_Order_findOne then (Cp_failed_to_create_payment, d)
          else case find (\<lambda>x. ord_id x = k \<and> ord_user_id x = pr_user r) (orders d) of
            None \<Rightarrow> (Cp_order_not_found, d)
          | Some x \<Rightarrow>
              if cp_throws e Cp_Payment_findOne then (Cp_failed_to_create_payment, d)
              else if \<exists>p \<in> set (payments d). pay_order_id p = k then (Cp_payment_exists, d)
              else if ord_status x \<noteq> Os_pending then (Cp_order_not_pending, d)
              else case createTransaction e (order_number x) (total_amount x div 100) of
                Gw_failure err \<Rightarrow> (Cp_gateway_failed err, d)
              | Gw_success token redirect_url \<Rightarrow>
                  if cp_throws e Cp_Payment_create then (Cp_failed_to_create_payment, d)
                  else
                    (Cp_payment_created
                       \<lparr> pay_id = next_id (payment_ids_used e) (map pay_id (payments d)), pay_order_id = ord_id x,
                         pay_user_id = pr_user r, payment_method = ''midtrans'',
                         midtrans_transaction_id = None,
                         midtrans_order_id = Some (order_number x),
                         amount = total_amount x, status = St_pending, fraud_status = None,
                         payment_date = None, expiry_time = None, payment_url = redirect_url,
                         signature_key = None, webhook_logs = [] \<rparr> token,
                     d\<lparr> payments := payments d @
                        [\<lparr> pay_id = next_id (payment_ids_used e) (map pay_id (payments d)), pay_order_id = ord_id x,
                         pay_user_id = pr_user r, payment_method = ''midtrans'',
                         midtrans_transaction_id = None,
                         midtrans_order_id = Some (order_number x),
                         amount = total_amount x, status = St_pending, fraud_status = None,
                         payment_date = None, expiry_time = None, payment_url = redirect_url,
                         signature_key = None, webhook_logs = [] \<rparr>] \<rparr>))"
proof -
  have ex: "(\<exists>p \<in> set (payments d). pay_order_id p = k) \<longleftrightarrow>
      find (\<lambda>p. pay_order_id p = k) (payments d) \<noteq> None" for k
    by (auto simp: find_None_iff)
  show ?thesis
    unfolding createPayment_def Let_def ex
    by (simp split: option.splits gateway_result.splits)
qed

text \<open>A payment row is written exactly when the answer is 201; the row is pending, carries
  the total of a pending order of the caller that had no payment, and is keyed by its order
  number. Every other answer leaves the store as it was.\<close>

lemma createPayment_state:
  "(case fst (createPayment e r d) of
      Cp_payment_created p token \<Rightarrow>
        snd (createPayment e r d) = d\<lparr> payments := payments d @ [p] \<rparr> \<and>
        status p = St_pending \<and>
        (\<exists>x \<in> set (orders d). ord_id x = pay_order_id p \<and> ord_user_id x = pr_user r \<and>
           ord_status x = Os_pending \<and> amount p = total_amount x \<and>
           midtrans_order_id p = Some (order_number x)) \<and>
        (\<forall>q \<in> set (payments d). pay_order_id q \<noteq> pay_order_id p)
    | _ \<Rightarrow> snd (createPayment e r d) = d)"
proof (cases "pr_order_id r")
  case None
  then show ?thesis by (simp add: createPayment_unfold)
next
  case (Some k)
  show ?thesis
  proof (cases "find (\<lambda>x. ord_id x = k \<and> ord_user_id x = pr_user r) (orders d)")
    case None
    with Some show ?thesis by (simp add: createPayment_unfold)
  next
    case x: (Some x)
    then have mem: "x \<in> set (orders d)" "ord_id x = k" "ord_user_id x = pr_user r"
      by (auto simp: find_Some_iff)
    show ?thesis
    proof (cases "createTransaction e (order_number x) (total_amount x div 100)")
      case (Gw_failure err)
      with Some x show ?thesis by (simp add: createPayment_unfold)
    next
      case (Gw_success token url)
      with Some x mem show ?thesis by (auto simp: createPayment_unfold)
    qed
  qed
qed

text \<open>The rejections, in the order in which the handler checks them.\<close>

lemma createPayment_rejections:
  assumes "pr_order_id r = Some k" and "\<forall>c. \<not> cp_throws e c"
  shows "(find (\<lambda>x. ord_id x = k \<and> ord_user_id x = pr_user r) (orders d) = None \<longrightarrow>
            createPayment e r d = (Cp_order_not_found, d)) \<and>
         (\<forall>x. find (\<lambda>x. ord_id x = k \<and> ord_user_id x = pr_user r) (orders d) = Some x \<longrightarrow>
            ((\<exists>p \<in> set (payments d). pay_order_id p = k) \<longrightarrow>
               createPayment e r d = (Cp_payment_exists, d)) \<and>
            (\<not> (\<exists>p \<in> set (payments d). pay_order_id p = k) \<and> ord_status x \<noteq> Os_pending \<longrightarrow>
               createPayment e r d = (Cp_order_not_pending, d)) \<and>
            (\<forall>err. \<not> (\<exists>p \<in> set (payments d). pay_order_id p = k) \<and> ord_status x = Os_pending \<and>
               createTransaction e (order_number x) (total_amount x div 100) = Gw_failure err \<longrightarrow>
               createPayment e r d = (Cp_gateway_failed err, d)))"
  using assms by (simp add: createPayment_unfold)

lemma createPayment_success:
  assumes "pr_order_id r = Some k" and "\<forall>c. \<not> cp_throws e c"
    and "find (\<lambda>x. ord_id x = k \<and> ord_user_id x = pr_user r) (orders d) = Some x"
    and "\<not> (\<exists>p \<in> set (payments d). pay_order_id p = k)" and "ord_status x = Os_pending"
    and "createTransaction e (order_number x) (total_amount x div 100) = Gw_success token url"
  shows "\<exists>p. createPayment e r d = (Cp_payment_created p token, d\<lparr> payments := payments d @ [p] \<rparr>) \<and>
           status p = St_pending \<and> amount p = total_amount x \<and> pay_order_id p = k"
proof -
  from assms(3) have "ord_id x = k" by (auto simp: find_Some_iff)
  with assms show ?thesis by (simp add: createPayment_unfold)
qed

text \<open>
  Claim C7. A payment row is written exactly when the request succeeds: the answer
  \<^verbatim>\<open>created\<close> comes with the store extended by one payment, which is pending and carries
  the total of a pending order of the caller that had no payment, and every other answer
  comes with the store unchanged. When no store call throws, the checks are made in this
  order: an order that does not exist or belongs to another user is answered with
  not-found (404); an order of the caller that already has a payment with conflict (409);
  an order of the caller without payment whose status is not pending with invalid-state
  (400, a response other than not-found); and when the gateway refuses the transaction of a
  pending order without payment, the answer is a failure (500) with no payment row and the
  store unchanged, so that the same request succeeds as soon as the gateway accepts it.
  When the gateway accepts, the answer is \<^verbatim>\<open>created\<close> (201) with a pending payment of the
  order's total.
\<close>

theorem C7_payment_initiator:
  "(case fst (createPayment e r d) of
      Cp_payment_created p token \<Rightarrow>
        snd (createPayment e r d) = d\<lparr> payments := payments d @ [p] \<rparr> \<and>
        status p = St_pending \<and>
        (\<exists>x \<in> set (orders d). ord_id x = pay_order_id p \<and> ord_user_id x = pr_user r \<and>
           ord_status x = Os_pending \<and> amount p = total_amount x \<and>
           midtrans_order_id p = Some (order_number x)) \<and>
        (\<forall>q \<in> set (payments d). pay_order_id q \<noteq> pay_order_id p)
    | _ \<Rightarrow> snd (createPayment e r d) = d) \<and>
   (\<forall>k. pr_order_id r = Some k \<and> (\<forall>c. \<not> cp_throws e c) \<longrightarrow>
      (find (\<lambda>x. ord_id x = k \<and> ord_user_id x = pr_user r) (orders d) = None \<longrightarrow>
         createPayment e r d = (Cp_order_not_found, d)) \<and>
      (\<forall>x. find (\<lambda>x. ord_id x = k \<and> ord_user_id x = pr_user r) (orders d) = Some x \<longrightarrow>
         ((\<exists>p \<in> set (payments d). pay_order_id p = k) \<longrightarrow>
            createPayment e r d = (Cp_payment_exists, d)) \<and>
         (\<not> (\<exists>p \<in> set (payments d). pay_order_id p = k) \<and> ord_status x \<noteq> Os_pending \<longrightarrow>
            createPayment e r d = (Cp_order_not_pending, d)) \<and>
         (\<forall>err. \<not> (\<exists>p \<in> set (payments d). pay_order_id p = k) \<and> ord_status x = Os_pending \<and>
            createTransaction e (order_number x) (total_amount x div 100) = Gw_failure err \<longrightarrow>
            createPayment e r d = (Cp_gateway_failed err, d) \<and>
            (\<forall>e' token url. (\<forall>c. \<not> cp_throws e' c) \<and>
               createTransaction e' (order_number x) (total_amount x div 100) =
                 Gw_success token url \<longrightarrow>
               cp_status (fst (createPayment e' r (snd (createPayment e r d)))) = 201)) \<and>
         (\<forall>token url. \<not> (\<exists>p \<in> set (payments d). pay_order_id p = k) \<and>
            ord_status x = Os_pending \<and>
            createTransaction e (order_number x) (total_amount x div 100) =
              Gw_success token url \<longrightarrow>
            (\<exists>p. createPayment e r d =
                    (Cp_payment_created p token, d\<lparr> payments := payments d @ [p] \<rparr>) \<and>
                 status p = St_pending \<and> amount p = total_amount x \<and> pay_order_id p = k)))) \<and>
   cp_status Cp_order_not_found = 404 \<and> cp_status Cp_payment_exists = 409 \<and>
   cp_status Cp_order_not_pending = 400 \<and> (\<forall>err. cp_status (Cp_gateway_failed err) = 500) \<and>
   (\<forall>p token. cp_status (Cp_payment_created p token) = 201)"
proof -
  have rej: "\<forall>k. pr_order_id r = Some k \<and> (\<forall>c. \<not> cp_throws e c) \<longrightarrow>
      (find (\<lambda>x. ord_id x = k \<and> ord_user_id x = pr_user r) (orders d) = None \<longrightarrow>
         createPayment e r d = (Cp_order_not_found, d)) \<and>
      (\<forall>x. find (\<lambda>x. ord_id x = k \<and> ord_user_id x = pr_user r) (orders d) = Some x \<longrightarrow>
         ((\<exists>p \<in> set (payments d). pay_order_id p = k) \<longrightarrow>
            createPayment e r d = (Cp_payment_exists, d)) \<and>
         (\<not> (\<exists>p \<in> set (payments d). pay_order_id p = k) \<and> ord_status x \<noteq> Os_pending \<longrightarrow>
            createPayment e r d = (Cp_order_not_pending, d)) \<and>
         (\<forall>err. \<not> (\<exists>p \<in> set (payments d). pay_order_id p = k) \<and> ord_status x = Os_pending \<and>
            createTransaction e (order_number x) (total_amount x div 100) = Gw_failure err \<longrightarrow>
            createPayment e r d = (Cp_gateway_failed err, d) \<and>
            (\<forall>e' token url. (\<forall>c. \<not> cp_throws e' c) \<and>
               createTransaction e' (order_number x) (total_amount x div 100) =
                 Gw_success token url \<longrightarrow>
               cp_status (fst (createPayment e' r (snd (createPayment e r d)))) = 201)) \<and>
         (\<forall>token url. \<not> (\<exists>p \<in> set (payments d). pay_order_id p = k) \<and>
            ord_status x = Os_pending \<and>
            createTransaction e (order_number x) (total_amount x div 100) =
              Gw_success token url \<longrightarrow>
            (\<exists>p. createPayment e r d =
                    (Cp_payment_created p token, d\<lparr> payments := payments d @ [p] \<rparr>) \<and>
                 status p = St_pending \<and> amount p = total_amount x \<and> pay_order_id p = k)))"
  proof (intro allI impI, elim conjE)
    fix k
    assume k: "pr_order_id r = Some k" and nt: "\<forall>c. \<not> cp_throws e c"
    note R = createPayment_rejections [OF k nt, of d]
    have fail: "createPayment e r d = (Cp_gateway_failed err, d) \<and>
            (\<forall>e' token url. (\<forall>c. \<not> cp_throws e' c) \<and>
               createTransaction e' (order_number x) (total_amount x div 100) =
                 Gw_success token url \<longrightarrow>
               cp_status (fst (createPayment e' r (snd (createPayment e r d)))) = 201)"
      if x: "find (\<lambda>x. ord_id x = k \<and> ord_user_id x = pr_user r) (orders d) = Some x"
        and np: "\<not> (\<exists>p \<in> set (payments d). pay_order_id p = k)"
        and pe: "ord_status x = Os_pending"
        and gw: "createTransaction e (order_number x) (total_amount x div 100) = Gw_failure err"
      for x err
    proof -
      have a: "createPayment e r d = (Cp_gateway_failed err, d)"
        using R x np pe gw by blast
      have "cp_status (fst (createPayment e' r d)) = 201"
        if "\<forall>c. \<not> cp_throws e' c"
          and "createTransaction e' (order_number x) (total_amount x div 100) =
                 Gw_success token url"
        for e' token url
        using createPayment_success [OF k that(1) x np pe that(2)] by auto
      with a show ?thesis by simp
    qed
    have ok: "\<exists>p. createPayment e r d =
                    (Cp_payment_created p token, d\<lparr> payments := payments d @ [p] \<rparr>) \<and>
                 status p = St_pending \<and> amount p = total_amount x \<and> pay_order_id p = k"
      if "find (\<lambda>x. ord_id x = k \<and> ord_user_id x = pr_user r) (orders d) = Some x"
        and "\<not> (\<exists>p \<in> set (payments d). pay_order_id p = k)"
        and "ord_status x = Os_pending"
        and "createTransaction e (order_number x) (total_amount x div 100) =
              Gw_success token url"
      for x token url
      using that by (rule createPayment_success [OF k nt])
    from R fail ok
    show "(find (\<lambda>x. ord_id x = k \<and> ord_user_id x = pr_user r) (orders d) = None \<longrightarrow>
         createPayment e r d = (Cp_order_not_found, d)) \<and>
      (\<forall>x. find (\<lambda>x. ord_id x = k \<and> ord_user_id x = pr_user r) (orders d) = Some x \<longrightarrow>
         ((\<exists>p \<in> set (payments d). pay_order_id p = k) \<longrightarrow>
            createPayment e r d = (Cp_payment_exists, d)) \<and>
         (\<not> (\<exists>p \<in> set (payments d). pay_order_id p = k) \<and> ord_status x \<noteq> Os_pending \<longrightarrow>
            createPayment e r d = (Cp_order_not_pending, d)) \<and>
         (\<forall>err. \<not> (\<exists>p \<in> set (payments d). pay_order_id p = k) \<and> ord_status x = Os_pending \<and>
            createTransaction e (order_number x) (total_amount x div 100) = Gw_failure err \<longrightarrow>
            createPayment e r d = (Cp_gateway_failed err, d) \<and>
            (\<forall>e' token url. (\<forall>c. \<not> cp_throws e' c) \<and>
               createTransaction e' (order_number x) (total_amount x div 100) =
                 Gw_success token url \<longrightarrow>
               cp_status (fst (createPayment e' r (snd (createPayment e r d)))) = 201)) \<and>
         (\<forall>token url. \<not> (\<exists>p \<in> set (payments d). pay_order_id p = k) \<and>
            ord_status x = Os_pending \<and>
            createTransaction e (order_number x) (total_amount x div 100) =
              Gw_success token url \<longrightarrow>
            (\<exists>p. createPayment e r d =
                    (Cp_payment_created p token, d\<lparr> payments := payments d @ [p] \<rparr>) \<and>
                 status p = St_pending \<and> amount p = total_amount x \<and> pay_order_id p = k)))"
      by (intro conjI allI impI) blast+
  qed
  have codes: "cp_status Cp_order_not_found = 404 \<and> cp_status Cp_payment_exists = 409 \<and>
      cp_status Cp_order_not_pending = 400 \<and> (\<forall>err. cp_status (Cp_gateway_failed err) = 500) \<and>
      (\<forall>p token. cp_status (Cp_payment_created p token) = 201)"
    by simp
  show ?thesis by (rule conjI [OF createPayment_state conjI [OF rej codes]])
qed

text \<open>The request of user 3 to pay order 7: on the sample store, where the order is confirmed
  and its payment is stored, it is answered with 409; on the store where the order is
  pending and has no payment, a payment of the order's total is created.\<close>

theorem C7_payment_initiator_witness:
  "pr_order_id ex_payment_request = Some 7 \<and> (\<forall>c. \<not> cp_throws ex_cp_env c) \<and>
   find (\<lambda>x. ord_id x = 7 \<and> ord_user_id x = pr_user ex_payment_request) (orders ex_db) =
     Some ex_order \<and>
   (\<exists>p \<in> set (payments ex_db). pay_order_id p = 7) \<and>
   createPayment ex_cp_env ex_payment_request ex_db = (Cp_payment_exists, ex_db) \<and>
   find (\<lambda>x. ord_id x = 7 \<and> ord_user_id x = pr_user ex_payment_request) (orders ex_unpaid_db) =
     Some ex_pending_order \<and>
   \<not> (\<exists>p \<in> set (payments ex_unpaid_db). pay_order_id p = 7) \<and>
   ord_status ex_pending_order = Os_pending \<and>
   (\<exists>p. createPayment ex_cp_env ex_payment_request ex_unpaid_db =
          (Cp_payment_created p ''test-token-123'',
           ex_unpaid_db\<lparr> payments := payments ex_unpaid_db @ [p] \<rparr>) \<and>
        status p = St_pending \<and> amount p = 20000000 \<and> pay_order_id p = 7)"
proof -
  have k: "pr_order_id ex_payment_request = Some 7 \<and> (\<forall>c. \<not> cp_throws ex_cp_env c)"
    by (simp add: ex_defs)
  have x1: "find (\<lambda>x. ord_id x = 7 \<and> ord_user_id x = pr_user ex_payment_request) (orders ex_db) =
     Some ex_order"
    by (simp add: ex_defs)
  have p1: "\<exists>p \<in> set (payments ex_db). pay_order_id p = 7"
    by (simp add: ex_defs)
  have x2: "find (\<lambda>x. ord_id x = 7 \<and> ord_user_id x = pr_user ex_payment_request)
      (orders ex_unpaid_db) = Some ex_pending_order"
    by (simp add: ex_defs)
  have p2: "\<not> (\<exists>p \<in> set (payments ex_unpaid_db). pay_order_id p = 7) \<and>
      ord_status ex_pending_order = Os_pending \<and>
      createTransaction ex_cp_env (order_number ex_pending_order)
        (total_amount ex_pending_order div 100) =
      Gw_success ''test-token-123'' (Some ''https://pay.example/test-token-123'')"
    by (simp add: ex_defs)
  have tot: "total_amount ex_pending_order = 20000000"
    by (simp add: ex_defs)
  note a = C7_payment_initiator [of ex_cp_env ex_payment_request ex_db, THEN conjunct2,
      THEN conjunct1, rule_format, OF k, THEN conjunct2, rule_format, OF x1, THEN conjunct1,
      THEN mp, OF p1]
  note b = C7_payment_initiator [of ex_cp_env ex_payment_request ex_unpaid_db, THEN conjunct2,
      THEN conjunct1, rule_format, OF k, THEN conjunct2, rule_format, OF x2, THEN conjunct2,
      THEN conjunct2, THEN conjunct2, rule_format, OF p2]
  from b have b': "\<exists>p. createPayment ex_cp_env ex_payment_request ex_unpaid_db =
          (Cp_payment_created p ''test-token-123'',
           ex_unpaid_db\<lparr> payments := payments ex_unpaid_db @ [p] \<rparr>) \<and>
        status p = St_pending \<and> amount p = 20000000 \<and> pay_order_id p = 7"
    unfolding tot .
  from k x1 p1 a x2 p2 b' show ?thesis by blast
qed

section \<open>Properties of Order Cancellation\<close>

lemma find_unique_prod:
  assumes "distinct (map prod_id ps)" and "find (\<lambda>p. prod_id p = k) ps = Some p"
    and "r \<in> set ps" and "prod_id r = k"
  shows "r = p"
proof -
  have "p \<in> set ps" and "prod_id p = k" using assms(2) by (auto simp: find_Some_iff)
  moreover have "inj_on prod_id (set ps)" using assms(1) by (simp add: distinct_map)
  ultimately show ?thesis using assms(3,4) by (auto dest: inj_onD)
qed

lemma map_prod_id_set_stock [simp]: "map prod_id (set_stock k v ps) = map prod_id ps"
  by (simp add: set_stock_def)

text \<open>With distinct product ids, writing the stock read from the row adds to that row.\<close>

lemma set_stock_add:
  assumes "distinct (map prod_id ps)" and "find (\<lambda>p. prod_id p = k) ps = Some p"
  shows "set_stock (prod_id p) (stock_quantity p + q) ps =
         map (\<lambda>r. if prod_id r = k then r\<lparr> stock_quantity := stock_quantity r + q \<rparr> else r) ps"
proof -
  have k: "prod_id p = k" using assms(2) by (auto simp: find_Some_iff)
  show ?thesis
    unfolding set_stock_def k
    by (rule map_cong [OF refl]) (auto dest: find_unique_prod [OF assms])
qed

lemma restore_stock_result:
  assumes "\<forall>c. \<not> throws c" and "distinct (map prod_id ps)"
  shows "restore_stock throws i its ps =
     Inr (map (\<lambda>p. p\<lparr> stock_quantity := stock_quantity p + restored its p \<rparr>) ps)"
  using assms(2)
proof (induction its arbitrary: i ps)
  case Nil
  then show ?case by (simp add: restored_def)
next
  case (Cons it its)
  show ?case
  proof (cases "find (\<lambda>p. prod_id p = item_product_id it) ps")
    case None
    then have "\<forall>p \<in> set ps. prod_id p \<noteq> item_product_id it" by (simp add: find_None_iff)
    then have "map (\<lambda>p. p\<lparr> stock_quantity := stock_quantity p + restored (it # its) p \<rparr>) ps =
               map (\<lambda>p. p\<lparr> stock_quantity := stock_quantity p + restored its p \<rparr>) ps"
      by (intro map_cong [OF refl]) (auto simp: restored_def)
    with None Cons.IH [OF Cons.prems] assms(1) show ?thesis by simp
  next
    case (Some p)
    let ?ps1 = "set_stock (prod_id p) (stock_quantity p + item_quantity it) ps"
    have d1: "distinct (map prod_id ?ps1)" using Cons.prems by simp
    have ps1: "?ps1 = map (\<lambda>r. if prod_id r = item_product_id it
        then r\<lparr> stock_quantity := stock_quantity r + item_quantity it \<rparr> else r) ps"
      by (rule set_stock_add [OF Cons.prems Some])
    have "restore_stock throws i (it # its) ps = restore_stock throws (Suc i) its ?ps1"
      using Some assms(1) by simp
    also have "\<dots> = Inr (map (\<lambda>p. p\<lparr> stock_quantity := stock_quantity p + restored its p \<rparr>) ?ps1)"
      by (rule Cons.IH [OF d1])
    also have "map (\<lambda>p. p\<lparr> stock_quantity := stock_quantity p + restored its p \<rparr>) ?ps1 =
       map (\<lambda>p. p\<lparr> stock_quantity := stock_quantity p + restored (it # its) p \<rparr>) ps"
      unfolding ps1 map_map
      by (rule map_cong [OF refl]) (auto simp: restored_def)
    finally show ?thesis .
  qed
qed

lemma find_pk_write_order_mem:
  "x \<in> set os \<Longrightarrow> ord_id y = ord_id x \<Longrightarrow>
   find (\<lambda>r. ord_id r = ord_id x) (write_order y os) = Some y"
  by (induction os) (auto simp: write_order_def)

lemma write_order_write_order:
  "ord_id z = ord_id y \<Longrightarrow> write_order z (write_order y os) = write_order z os"
  by (simp add: write_order_def)

lemma cancelOrder_rejected:
  assumes "can_order_id r = Some k" and "\<not> throws Ca_Order_findOne"
    and "find (\<lambda>x. ord_id x = k \<and> ord_user_id x = can_user r) (orders d) = Some x"
    and "ord_status x \<in> {Os_processing, Os_shipped, Os_delivered, Os_cancelled}"
  shows "cancelOrder throws r d = ((400, ''Order cannot be cancelled at this stage''), d)"
  using assms by (auto simp: cancelOrder_def)

lemma cancelOrder_accepted:
  assumes "can_order_id r = Some k" and "\<forall>c. \<not> throws c"
    and "find (\<lambda>x. ord_id x = k \<and> ord_user_id x = can_user r) (orders d) = Some x"
    and "ord_status x \<in> {Os_pending, Os_confirmed}"
    and "distinct (map prod_id (products d))"
  shows "cancelOrder throws r d =
     ((200, ''Order cancelled successfully''),
      d\<lparr> orders := write_order
             (x\<lparr> ord_status := Os_cancelled,
                 payment_status :=
                   (if payment_status x = Ps_pending then Ps_failed else payment_status x) \<rparr>)
             (orders d),
         products :=
           map (\<lambda>p. p\<lparr> stock_quantity := stock_quantity p +
                  restored (filter (\<lambda>it. item_order_id it = ord_id x) (order_items d)) p \<rparr>)
             (products d) \<rparr>)"
proof -
  have rs: "restore_stock throws 0 its (products d) =
     Inr (map (\<lambda>p. p\<lparr> stock_quantity := stock_quantity p + restored its p \<rparr>) (products d))"
    for its
    by (rule restore_stock_result [OF assms(2) assms(5)])
  have same: "x\<lparr> ord_status := Os_cancelled, payment_status := payment_status x \<rparr> =
      x\<lparr> ord_status := Os_cancelled \<rparr>"
    by simp
  show ?thesis
    using assms(1-4)
    by (auto simp: cancelOrder_def cancelOrder_tx_def Let_def rs write_order_write_order same)
qed


text \<open>
  Claim C6, as stated, fails in one point: the rejection does not name the status of the
  order. The sample order, once shipped and once delivered, is refused with the same fixed
  text.
\<close>

theorem C6_rejection_counterexample:
  "cancelOrder (\<lambda>c. False) ex_cancel_request
     (ex_db\<lparr> orders := [ex_order\<lparr> ord_status := Os_shipped \<rparr>] \<rparr>) =
     ((400, ''Order cannot be cancelled at this stage''),
      ex_db\<lparr> orders := [ex_order\<lparr> ord_status := Os_shipped \<rparr>] \<rparr>) \<and>
   cancelOrder (\<lambda>c. False) ex_cancel_request
     (ex_db\<lparr> orders := [ex_order\<lparr> ord_status := Os_delivered \<rparr>] \<rparr>) =
     ((400, ''Order cannot be cancelled at this stage''),
      ex_db\<lparr> orders := [ex_order\<lparr> ord_status := Os_delivered \<rparr>] \<rparr>)"
  by (simp add: ex_defs cancelOrder_def)

text \<open>
  Claim C6, amended. For an order of the caller, product ids being distinct and no store
  call throwing: when the order is pending or confirmed the handler answers 200, the order
  becomes cancelled, its \<^verbatim>\<open>payment_status\<close> becomes failed if it was pending and is kept
  otherwise, the stock of every product grows by exactly the quantities of the items of this
  order for that product, and nothing else changes; when the order is processing, shipped,
  delivered or cancelled the handler answers 400 with the fixed message
  \<^verbatim>\<open>Order cannot be cancelled at this stage\<close> and the store is unchanged.
\<close>

theorem C6_cancellation:
  assumes "can_order_id r = Some k" and "\<forall>c. \<not> throws c"
    and "find (\<lambda>x. ord_id x = k \<and> ord_user_id x = can_user r) (orders d) = Some x"
    and "distinct (map prod_id (products d))"
  shows "(ord_status x \<in> {Os_pending, Os_confirmed} \<longrightarrow>
      fst (cancelOrder throws r d) = (200, ''Order cancelled successfully'') \<and>
      order_by_pk k (snd (cancelOrder throws r d)) =
        Some (x\<lparr> ord_status := Os_cancelled,
                  payment_status :=
                    (if payment_status x = Ps_pending then Ps_failed else payment_status x) \<rparr>) \<and>
      products (snd (cancelOrder throws r d)) =
        map (\<lambda>p. p\<lparr> stock_quantity := stock_quantity p +
               restored (filter (\<lambda>it. item_order_id it = k) (order_items d)) p \<rparr>)
          (products d) \<and>
      cart (snd (cancelOrder throws r d)) = cart d \<and>
      order_items (snd (cancelOrder throws r d)) = order_items d \<and>
      payments (snd (cancelOrder throws r d)) = payments d \<and>
      addresses (snd (cancelOrder throws r d)) = addresses d) \<and>
    (ord_status x \<in> {Os_processing, Os_shipped, Os_delivered, Os_cancelled} \<longrightarrow>
      cancelOrder throws r d = ((400, ''Order cannot be cancelled at this stage''), d))"
proof -
  have mem: "x \<in> set (orders d)" and k: "ord_id x = k"
    using assms(3) by (auto simp: find_Some_iff)
  have rej: "cancelOrder throws r d = ((400, ''Order cannot be cancelled at this stage''), d)"
    if "ord_status x \<in> {Os_processing, Os_shipped, Os_delivered, Os_cancelled}"
    using assms(1) _ assms(3) that by (rule cancelOrder_rejected) (simp add: assms(2))
  have acc: "fst (cancelOrder throws r d) = (200, ''Order cancelled successfully'') \<and>
      order_by_pk k (snd (cancelOrder throws r d)) =
        Some (x\<lparr> ord_status := Os_cancelled,
                  payment_status :=
                    (if payment_status x = Ps_pending then Ps_failed else payment_status x) \<rparr>) \<and>
      products (snd (cancelOrder throws r d)) =
        map (\<lambda>p. p\<lparr> stock_quantity := stock_quantity p +
               restored (filter (\<lambda>it. item_order_id it = k) (order_items d)) p \<rparr>)
          (products d) \<and>
      cart (snd (cancelOrder throws r d)) = cart d \<and>
      order_items (snd (cancelOrder throws r d)) = order_items d \<and>
      payments (snd (cancelOrder throws r d)) = payments d \<and>
      addresses (snd (cancelOrder throws r d)) = addresses d"
    if st: "ord_status x \<in> {Os_pending, Os_confirmed}"
  proof -
    let ?x' = "x\<lparr> ord_status := Os_cancelled,
                  payment_status :=
                    (if payment_status x = Ps_pending then Ps_failed else payment_status x) \<rparr>"
    note eq = cancelOrder_accepted [OF assms(1,2,3) st assms(4)]
    have "find (\<lambda>r. ord_id r = ord_id x) (write_order ?x' (orders d)) = Some ?x'"
      by (rule find_pk_write_order_mem [OF mem]) simp
    then have "order_by_pk k (snd (cancelOrder throws r d)) = Some ?x'"
      by (simp add: eq order_by_pk_def k)
    then show ?thesis by (simp add: eq k)
  qed
  from rej acc show ?thesis by blast
qed

text \<open>The owner cancels the pending sample order: the two reserved units return to the
  stock of three, and the pending payment status becomes failed.\<close>

theorem C6_cancellation_witness:
  "can_order_id ex_cancel_request = Some 7 \<and>
   find (\<lambda>x. ord_id x = 7 \<and> ord_user_id x = can_user ex_cancel_request) (orders ex_pending_db) =
     Some ex_pending_order \<and>
   distinct (map prod_id (products ex_pending_db)) \<and>
   ord_status ex_pending_order = Os_pending \<and>
   fst (cancelOrder (\<lambda>c. False) ex_cancel_request ex_pending_db) =
     (200, ''Order cancelled successfully'') \<and>
   map stock_quantity (products (snd (cancelOrder (\<lambda>c. False) ex_cancel_request ex_pending_db))) =
     [5] \<and>
   map payment_status (orders (snd (cancelOrder (\<lambda>c. False) ex_cancel_request ex_pending_db))) =
     [Ps_failed]"
proof -
  have h1: "can_order_id ex_cancel_request = Some 7" by (simp add: ex_defs)
  have h2: "\<forall>c. \<not> (\<lambda>c. False) c" by simp
  have h3: "find (\<lambda>x. ord_id x = 7 \<and> ord_user_id x = can_user ex_cancel_request)
      (orders ex_pending_db) = Some ex_pending_order"
    by (simp add: ex_defs)
  have h4: "distinct (map prod_id (products ex_pending_db))" by (simp add: ex_defs)
  have h5: "ord_status ex_pending_order = Os_pending" by (simp add: ex_defs)
  have ev: "map payment_status
      (orders (snd (cancelOrder (\<lambda>c. False) ex_cancel_request ex_pending_db))) = [Ps_failed]"
    by (simp add: ex_defs cancelOrder_def cancelOrder_tx_def write_order_def set_stock_def
        Let_def)
  have st: "map stock_quantity
      (map (\<lambda>p. p\<lparr> stock_quantity := stock_quantity p +
               restored (filter (\<lambda>it. item_order_id it = 7) (order_items ex_pending_db)) p \<rparr>)
          (products ex_pending_db)) = [5]"
    by (simp add: ex_defs restored_def)
  from C6_cancellation [OF h1 h2 h3 h4] h5 have
    "fst (cancelOrder (\<lambda>c. False) ex_cancel_request ex_pending_db) =
       (200, ''Order cancelled successfully'')"
    "products (snd (cancelOrder (\<lambda>c. False) ex_cancel_request ex_pending_db)) =
       map (\<lambda>p. p\<lparr> stock_quantity := stock_quantity p +
               restored (filter (\<lambda>it. item_order_id it = 7) (order_items ex_pending_db)) p \<rparr>)
          (products ex_pending_db)"
    by simp_all
  with h1 h3 h4 h5 ev st show ?thesis by simp
qed


section \<open>Properties of the Checkout Orchestrator\<close>

lemma validate_items_Inr:
  "validate_items items s v = Inr (s', v') \<Longrightarrow>
     v' = v @ items \<and>
     s' = s + sum_list (map line_total (with_product items)) \<and>
     map fst (with_product items) = map fst items \<and>
     (\<forall>cp \<in> set (with_product items). is_active (snd cp) \<and> quantity (fst cp) \<le> stock_quantity (snd cp))"
proof (induction items arbitrary: s v)
  case Nil
  then show ?case by simp
next
  case (Cons ci items)
  obtain c po where ci: "ci = (c, po)" by (cases ci)
  show ?case
  proof (cases po)
    case None
    with Cons.prems ci show ?thesis by simp
  next
    case (Some p)
    with Cons.prems ci have ok: "is_active p" "\<not> stock_quantity p < quantity c"
      and rec: "validate_items items (s + price p * quantity c) (v @ [(c, po)]) = Inr (s', v')"
      by (auto split: if_splits)
    from Cons.IH [OF rec] ok ci Some show ?thesis
      by (auto simp: line_total_def)
  qed
qed

lemma validate_items_Inl:
  "validate_items items s v = Inl resp \<Longrightarrow>
     (\<exists>c p. (c, Some p) \<in> set items \<and> is_active p \<and> stock_quantity p < quantity c \<and>
        resp = R_insufficient_stock (name p) (stock_quantity p)) \<or>
     (\<exists>nm. resp = R_product_unavailable nm)"
proof (induction items arbitrary: s v)
  case Nil
  then show ?case by simp
next
  case (Cons ci items)
  obtain c po where ci: "ci = (c, po)" by (cases ci)
  show ?case
  proof (cases po)
    case None
    with Cons.prems ci show ?thesis by auto
  next
    case (Some p)
    show ?thesis
    proof (cases "is_active p \<and> \<not> stock_quantity p < quantity c")
      case True
      with Cons.prems ci Some
      have "validate_items items (s + price p * quantity c) (v @ [(c, po)]) = Inl resp"
        by simp
      from Cons.IH [OF this] show ?thesis by auto
    next
      case False
      with Cons.prems ci Some show ?thesis by (auto split: if_splits)
    qed
  qed
qed

text \<open>When every selected product exists and is active, the first line that asks for more
  than the stock decides the rejection.\<close>

lemma validate_items_first_short:
  assumes "\<forall>ci \<in> set items. \<exists>p. snd ci = Some p \<and> is_active p"
    and "find (\<lambda>cp. stock_quantity (snd cp) < quantity (fst cp)) (with_product items) = Some (c, p)"
  shows "validate_items items s v = Inl (R_insufficient_stock (name p) (stock_quantity p))"
  using assms
proof (induction items arbitrary: s v)
  case Nil
  then show ?case by simp
next
  case (Cons ci items)
  from Cons.prems(1) obtain c' p' where ci: "ci = (c', Some p')" and act: "is_active p'"
    by (cases ci) auto
  show ?case
  proof (cases "stock_quantity p' < quantity c'")
    case True
    with Cons.prems(2) ci act show ?thesis by simp
  next
    case False
    with Cons.prems ci act show ?thesis by (simp add: Cons.IH)
  qed
qed

lemma validate_items_short_fails:
  assumes "(c, Some p) \<in> set items" and "stock_quantity p < quantity c"
  shows "\<exists>resp. validate_items items s v = Inl resp"
  using assms
proof (induction items arbitrary: s v)
  case Nil
  then show ?case by simp
next
  case (Cons ci items)
  obtain c' po' where ci: "ci = (c', po')" by (cases ci)
  show ?case
  proof (cases "ci = (c, Some p)")
    case True
    with Cons.prems(2) show ?thesis by simp
  next
    case False
    with Cons.prems have "(c, Some p) \<in> set items" by simp
    from Cons.IH [OF this Cons.prems(2)] ci show ?thesis
      by (auto split: option.splits)
  qed
qed

lemma create_items_Inr:
  "create_items e oid i items d acc = Inr (its, d') \<Longrightarrow>
     map fst (with_product items) = map fst items \<and>
     its = acc @ map (\<lambda>cp. order_item_of oid (fst cp) (snd cp)) (with_product items) \<and>
     d' = d\<lparr> order_items :=
               order_items d @ map (\<lambda>cp. order_item_of oid (fst cp) (snd cp)) (with_product items),
             products := stock_writes (with_product items) (products d) \<rparr>"
proof (induction items arbitrary: i d acc)
  case Nil
  then show ?case by (simp add: stock_writes_def)
next
  case (Cons ci items)
  obtain c po where ci: "ci = (c, po)" by (cases ci)
  show ?case
  proof (cases po)
    case None
    with Cons.prems ci show ?thesis by simp
  next
    case (Some p)
    let ?it = "order_item_of oid c p"
    let ?d1 = "d\<lparr> order_items := order_items d @ [?it] \<rparr>"
    let ?d2 = "?d1\<lparr> products :=
                 set_stock (prod_id p) (stock_quantity p - quantity c) (products ?d1) \<rparr>"
    from Cons.prems ci Some
    have rec: "create_items e oid (Suc i) items ?d2 (acc @ [?it]) = Inr (its, d')"
      by (simp add: Let_def split: if_splits)
    from Cons.IH [OF rec] ci Some show ?thesis
      by (simp add: stock_writes_def)
  qed
qed

lemma order_number_loop_fresh:
  "order_number_loop e os i k = Inr (Some num) \<Longrightarrow> \<forall>x \<in> set os. order_number x \<noteq> num"
  by (induction e os i k rule: order_number_loop.induct) (auto split: if_splits)

text \<open>The rows that \<^verbatim>\<open>Cart.destroy\<close> removes are the selected lines.\<close>

lemma destroy_selected:
  "filter (\<lambda>c. \<not> (cart_id c \<in> set (map cart_id (select_cart_lines r cs)) \<and>
                    cart_user_id c = req_user r)) cs =
   filter (\<lambda>c. c \<notin> set (select_cart_lines r cs)) cs"
  by (rule filter_cong [OF refl])
    (auto simp: select_cart_lines_def split: option.splits if_splits)

lemma ord_id_new_order [simp]:
  "ord_id (new_order e r k a num subtot sh tx di tot) = k"
  by (simp add: new_order_def)

lemma createOrder_tx_commit_raw:
  assumes "createOrder_tx e r d = (resp, Tx_commit, d')"
  obtains a subtot valid num its d2 where
    "valid_request r"
    "find (\<lambda>a. Some (addr_id a) = req_address_id r \<and> addr_user_id a = req_user r \<and>
             addr_is_active a) (addresses d) = Some a"
    "cartItems_of r d \<noteq> []"
    "validate_items (cartItems_of r d) 0 [] = Inr (subtot, valid)"
    "order_number_loop e (orders d) 0 10 = Inr (Some num)"
    "create_items e (next_id (order_ids_used e) (map ord_id (orders d))) 0 valid
       (d\<lparr> orders := orders d @
           [new_order e r (next_id (order_ids_used e) (map ord_id (orders d))) a num subtot 0 0 0 subtot] \<rparr>) [] =
     Inr (its, d2)"
    "d' = d2\<lparr> cart := filter (\<lambda>c. \<not> (cart_id c \<in> set (map (cart_id \<circ> fst) valid) \<and>
                    cart_user_id c = req_user r)) (cart d2) \<rparr>"
    "resp = (if co_throws e Order_refetch then R_failed_to_create_order
             else R_order_created
               (new_order e r (next_id (order_ids_used e) (map ord_id (orders d))) a num subtot 0 0 0 subtot)
               (filter (\<lambda>it. item_order_id it =
                    ord_id (new_order e r (next_id (order_ids_used e) (map ord_id (orders d))) a num subtot 0 0 0 subtot))
                  (order_items d')))"
  using assms
  by (auto simp: createOrder_tx_def Let_def
      split: if_splits option.splits sum.splits prod.splits)

lemma map_fst_cartItems_of [simp]: "map fst (cartItems_of r d) = select_cart_lines r (cart d)"
  by (simp add: cartItems_of_def include_product_def comp_def)

lemma createOrder_tx_commit:
  assumes "createOrder_tx e r d = (resp, Tx_commit, d')"
  obtains a subtot num where
    "valid_request r"
    "find (\<lambda>a. Some (addr_id a) = req_address_id r \<and> addr_user_id a = req_user r \<and>
             addr_is_active a) (addresses d) = Some a"
    "cartItems_of r d \<noteq> []"
    "validate_items (cartItems_of r d) 0 [] = Inr (subtot, cartItems_of r d)"
    "order_number_loop e (orders d) 0 10 = Inr (Some num)"
    "d' = checked_out r d
            (new_order e r (next_id (order_ids_used e) (map ord_id (orders d))) a num subtot 0 0 0 subtot)"
    "resp = (if co_throws e Order_refetch then R_failed_to_create_order
             else R_order_created
               (new_order e r (next_id (order_ids_used e) (map ord_id (orders d))) a num subtot 0 0 0 subtot)
               (filter (\<lambda>it. item_order_id it = next_id (order_ids_used e) (map ord_id (orders d)))
                  (order_items d')))"
proof -
  from assms obtain a subtot valid num its d2 where
    v: "valid_request r"
    and a: "find (\<lambda>a. Some (addr_id a) = req_address_id r \<and> addr_user_id a = req_user r \<and>
             addr_is_active a) (addresses d) = Some a"
    and ne: "cartItems_of r d \<noteq> []"
    and val: "validate_items (cartItems_of r d) 0 [] = Inr (subtot, valid)"
    and num: "order_number_loop e (orders d) 0 10 = Inr (Some num)"
    and ci: "create_items e (next_id (order_ids_used e) (map ord_id (orders d))) 0 valid
       (d\<lparr> orders := orders d @
           [new_order e r (next_id (order_ids_used e) (map ord_id (orders d))) a num subtot 0 0 0 subtot] \<rparr>) [] =
     Inr (its, d2)"
    and d': "d' = d2\<lparr> cart := filter (\<lambda>c. \<not> (cart_id c \<in> set (map (cart_id \<circ> fst) valid) \<and>
                    cart_user_id c = req_user r)) (cart d2) \<rparr>"
    and resp: "resp = (if co_throws e Order_refetch then R_failed_to_create_order
             else R_order_created
               (new_order e r (next_id (order_ids_used e) (map ord_id (orders d))) a num subtot 0 0 0 subtot)
               (filter (\<lambda>it. item_order_id it =
                    ord_id (new_order e r (next_id (order_ids_used e) (map ord_id (orders d))) a num subtot 0 0 0 subtot))
                  (order_items d')))"
    by (rule createOrder_tx_commit_raw)
  from validate_items_Inr [OF val] have valid: "valid = cartItems_of r d" by simp
  have ids: "map (cart_id \<circ> fst) valid = map cart_id (select_cart_lines r (cart d))"
    unfolding valid by (simp flip: map_map)
  from create_items_Inr [OF ci]
  have d2: "d2 = d\<lparr> orders := orders d @
           [new_order e r (next_id (order_ids_used e) (map ord_id (orders d))) a num subtot 0 0 0 subtot],
        order_items := order_items d @
          map (\<lambda>cp. order_item_of (next_id (order_ids_used e) (map ord_id (orders d))) (fst cp) (snd cp))
            (with_product (cartItems_of r d)),
        products := stock_writes (with_product (cartItems_of r d)) (products d) \<rparr>"
    by (simp add: valid)
  have cart2: "cart d2 = cart d" by (simp add: d2)
  have cart_eq: "filter (\<lambda>c. \<not> (cart_id c \<in> set (map (cart_id \<circ> fst) valid) \<and>
                    cart_user_id c = req_user r)) (cart d2) =
      filter (\<lambda>c. c \<notin> set (select_cart_lines r (cart d))) (cart d)"
    unfolding ids cart2 by (rule destroy_selected)
  have "d' = checked_out r d
            (new_order e r (next_id (order_ids_used e) (map ord_id (orders d))) a num subtot 0 0 0 subtot)"
    unfolding d' cart_eq checked_out_def by (simp add: d2)
  with v a ne val num resp valid that show thesis by simp
qed

text \<open>Unless the transaction commits, the store is the one before the call.\<close>

lemma createOrder_cases:
  "createOrder e r d = (fst (createOrder_tx e r d), d) \<and> fst (snd (createOrder_tx e r d)) \<noteq> Tx_commit \<or>
   (\<exists>resp d'. createOrder_tx e r d = (resp, Tx_commit, d') \<and> createOrder e r d = (resp, d'))"
proof -
  obtain resp t d' where tx: "createOrder_tx e r d = (resp, t, d')"
    by (cases "createOrder_tx e r d") auto
  then show ?thesis by (cases t) (simp_all add: createOrder_def)
qed

lemma stock_writes_nonneg:
  assumes "\<forall>cp \<in> set cps. quantity (fst cp) \<le> stock_quantity (snd cp)"
    and "\<forall>p \<in> set ps. 0 \<le> stock_quantity p"
  shows "\<forall>p \<in> set (stock_writes cps ps). 0 \<le> stock_quantity p"
  using assms
proof (induction cps arbitrary: ps)
  case Nil
  then show ?case by (simp add: stock_writes_def)
next
  case (Cons cp cps)
  let ?ps1 = "set_stock (prod_id (snd cp)) (stock_quantity (snd cp) - quantity (fst cp)) ps"
  have "\<forall>p \<in> set ?ps1. 0 \<le> stock_quantity p"
    using Cons.prems by (auto simp: set_stock_def)
  moreover have "\<forall>cp \<in> set cps. quantity (fst cp) \<le> stock_quantity (snd cp)"
    using Cons.prems(1) by simp
  ultimately have "\<forall>p \<in> set (stock_writes cps ?ps1). 0 \<le> stock_quantity p"
    by (rule Cons.IH [rotated])
  then show ?case by (simp add: stock_writes_def)
qed

lemma stock_writes_exact:
  assumes "distinct (map prod_id ps)"
    and "distinct (map (\<lambda>cp. prod_id (snd cp)) cps)"
    and "\<forall>cp \<in> set cps. snd cp \<in> set ps"
  shows "stock_writes cps ps =
         map (\<lambda>r. r\<lparr> stock_quantity := stock_quantity r - reserved cps r \<rparr>) ps"
  using assms
proof (induction cps arbitrary: ps)
  case Nil
  then show ?case by (simp add: stock_writes_def reserved_def)
next
  case (Cons cp cps)
  let ?k = "prod_id (snd cp)"
  let ?ps1 = "set_stock ?k (stock_quantity (snd cp) - quantity (fst cp)) ps"
  have inj: "inj_on prod_id (set ps)" using Cons.prems(1) by (simp add: distinct_map)
  have cp: "snd cp \<in> set ps" using Cons.prems(3) by simp
  have same: "r = snd cp" if "r \<in> set ps" "prod_id r = ?k" for r
    using that cp inj by (auto dest: inj_onD)
  have "?k \<notin> (\<lambda>cp. prod_id (snd cp)) ` set cps" using Cons.prems(2) by simp
  then have others: "\<forall>cp' \<in> set cps. prod_id (snd cp') \<noteq> ?k"
    by (metis imageI)
  have ps1: "?ps1 = map (\<lambda>r. if prod_id r = ?k
        then r\<lparr> stock_quantity := stock_quantity r - quantity (fst cp) \<rparr> else r) ps"
    unfolding set_stock_def by (rule map_cong [OF refl]) (auto dest: same)
  have d1: "distinct (map prod_id ?ps1)" using Cons.prems(1) by simp
  have d2: "distinct (map (\<lambda>cp. prod_id (snd cp)) cps)" using Cons.prems(2) by simp
  have in1: "\<forall>cp' \<in> set cps. snd cp' \<in> set ?ps1"
  proof
    fix cp' assume m: "cp' \<in> set cps"
    then have "snd cp' \<in> set ps" "prod_id (snd cp') \<noteq> ?k"
      using Cons.prems(3) others by auto
    then show "snd cp' \<in> set ?ps1" unfolding ps1 by (auto simp: image_iff intro!: bexI [of _ "snd cp'"])
  qed
  have no: "reserved cps r = 0" if "prod_id r = ?k" for r
    using others that by (auto simp: reserved_def filter_empty_conv)
  have "stock_writes (cp # cps) ps = stock_writes cps ?ps1"
    by (simp add: stock_writes_def)
  also have "\<dots> = map (\<lambda>r. r\<lparr> stock_quantity := stock_quantity r - reserved cps r \<rparr>) ?ps1"
    by (rule Cons.IH [OF d1 d2 in1])
  also have "\<dots> = map (\<lambda>r. r\<lparr> stock_quantity := stock_quantity r - reserved (cp # cps) r \<rparr>) ps"
    unfolding ps1 map_map
    by (rule map_cong [OF refl]) (auto simp: no reserved_def)
  finally show ?case .
qed

lemma with_product_cartItems:
  "cp \<in> set (with_product (cartItems_of r d)) \<Longrightarrow>
     fst cp \<in> set (select_cart_lines r (cart d)) \<and> snd cp \<in> set (products d) \<and>
     prod_id (snd cp) = cart_product_id (fst cp) \<and>
     find (\<lambda>p. prod_id p = cart_product_id (fst cp)) (products d) = Some (snd cp)"
proof -
  have "cp \<in> set (with_product (map (include_product ps) ls)) \<Longrightarrow>
     fst cp \<in> set ls \<and> snd cp \<in> set ps \<and> prod_id (snd cp) = cart_product_id (fst cp) \<and>
     find (\<lambda>p. prod_id p = cart_product_id (fst cp)) ps = Some (snd cp)" for ps ls
  proof (induction ls)
    case Nil
    then show ?case by simp
  next
    case (Cons l ls)
    show ?case
    proof (cases "find (\<lambda>p. prod_id p = cart_product_id l) ps")
      case None
      with Cons show ?thesis by (simp add: include_product_def)
    next
      case (Some p)
      then have "p \<in> set ps" "prod_id p = cart_product_id l" by (auto simp: find_Some_iff)
      with Cons Some show ?thesis by (auto simp: include_product_def)
    qed
  qed
  then show "cp \<in> set (with_product (cartItems_of r d)) \<Longrightarrow>
     fst cp \<in> set (select_cart_lines r (cart d)) \<and> snd cp \<in> set (products d) \<and>
     prod_id (snd cp) = cart_product_id (fst cp) \<and>
     find (\<lambda>p. prod_id p = cart_product_id (fst cp)) (products d) = Some (snd cp)"
    by (simp add: cartItems_of_def)
qed

lemma order_number_loop_10:
  "order_number_loop e os i 10 =
     (if co_throws e (Order_findOne i) then Inl ()
      else if \<exists>x \<in> set os. order_number x = generateOrderNumber e i
      then order_number_loop e os (Suc i) 9
      else Inr (Some (generateOrderNumber e i)))"
proof -
  have "(10::nat) = Suc 9" by simp
  then show ?thesis by (simp only: order_number_loop.simps)
qed

lemma create_items_ok:
  assumes "\<forall>i. \<not> co_throws e (OrderItem_create i) \<and> \<not> co_throws e (Product_update i)"
    and "\<forall>ci \<in> set items. snd ci \<noteq> None"
  shows "create_items e oid i items d acc =
     Inr (acc @ map (\<lambda>cp. order_item_of oid (fst cp) (snd cp)) (with_product items),
          d\<lparr> order_items :=
               order_items d @ map (\<lambda>cp. order_item_of oid (fst cp) (snd cp)) (with_product items),
             products := stock_writes (with_product items) (products d) \<rparr>)"
  using assms(2)
proof (induction items arbitrary: i d acc)
  case Nil
  then show ?case by (simp add: stock_writes_def)
next
  case (Cons ci items)
  from Cons.prems obtain c p where ci: "ci = (c, Some p)" by (cases ci) auto
  have rest: "\<forall>ci \<in> set items. snd ci \<noteq> None" using Cons.prems by simp
  show ?case
    using assms(1) by (simp add: ci Let_def Cons.IH [OF rest] stock_writes_def)
qed

text \<open>A checkout whose checks pass and whose store calls do not throw commits; only the
  re-read of the order can still turn the answer into a failure.\<close>

lemma createOrder_commits:
  assumes "valid_request r"
    and "\<forall>c. c \<noteq> Order_refetch \<longrightarrow> \<not> co_throws e c"
    and "find (\<lambda>a. Some (addr_id a) = req_address_id r \<and> addr_user_id a = req_user r \<and>
             addr_is_active a) (addresses d) = Some a"
    and "cartItems_of r d \<noteq> []"
    and "validate_items (cartItems_of r d) 0 [] = Inr (subtot, valid)"
    and "order_number_loop e (orders d) 0 10 = Inr (Some num)"
  shows "createOrder e r d =
     (if co_throws e Order_refetch then R_failed_to_create_order
      else R_order_created
             (new_order e r (next_id (order_ids_used e) (map ord_id (orders d))) a num subtot 0 0 0 subtot)
             (filter (\<lambda>it. item_order_id it = next_id (order_ids_used e) (map ord_id (orders d)))
                (order_items (checked_out r d
                   (new_order e r (next_id (order_ids_used e) (map ord_id (orders d))) a num subtot 0 0 0 subtot)))),
      checked_out r d
        (new_order e r (next_id (order_ids_used e) (map ord_id (orders d))) a num subtot 0 0 0 subtot))"
proof -
  let ?x = "new_order e r (next_id (order_ids_used e) (map ord_id (orders d))) a num subtot 0 0 0 subtot"
  from validate_items_Inr [OF assms(5)]
  have valid: "valid = cartItems_of r d"
    and some: "map fst (with_product (cartItems_of r d)) = map fst (cartItems_of r d)"
    by simp_all
  have len: "length (with_product items) = length items \<Longrightarrow> \<forall>ci \<in> set items. snd ci \<noteq> None"
    for items :: "(cart_line \<times> product option) list"
  proof (induction items rule: with_product.induct)
    case (2 c rest)
    have "length (with_product rest) \<le> length rest"
      by (induction rest rule: with_product.induct) auto
    with 2 show ?case by simp
  qed auto
  have all: "\<forall>ci \<in> set (cartItems_of r d). snd ci \<noteq> None"
    by (rule len) (metis some length_map)
  have thr: "\<forall>i. \<not> co_throws e (OrderItem_create i) \<and> \<not> co_throws e (Product_update i)"
    using assms(2) by simp
  have ids: "map (cart_id \<circ> fst) (cartItems_of r d) = map cart_id (select_cart_lines r (cart d))"
    by (simp flip: map_map)
  have cart_eq: "filter (\<lambda>c. \<not> (cart_id c \<in> set (map (cart_id \<circ> fst) (cartItems_of r d)) \<and>
                    cart_user_id c = req_user r)) (cart d) =
      filter (\<lambda>c. c \<notin> set (select_cart_lines r (cart d))) (cart d)"
    unfolding ids by (rule destroy_selected)
  have nt: "\<not> co_throws e Address_findOne" "\<not> co_throws e Cart_findAll"
    "\<not> co_throws e Order_create" "\<not> co_throws e Cart_destroy"
    using assms(2) by simp_all
  have ci: "create_items e (next_id (order_ids_used e) (map ord_id (orders d))) 0 (cartItems_of r d)
      (d\<lparr> orders := orders d @ [?x] \<rparr>) [] =
     Inr (map (\<lambda>cp. order_item_of (next_id (order_ids_used e) (map ord_id (orders d))) (fst cp) (snd cp))
            (with_product (cartItems_of r d)),
          d\<lparr> orders := orders d @ [?x],
             order_items := order_items d @
               map (\<lambda>cp. order_item_of (next_id (order_ids_used e) (map ord_id (orders d))) (fst cp) (snd cp))
                 (with_product (cartItems_of r d)),
             products := stock_writes (with_product (cartItems_of r d)) (products d) \<rparr>)"
    by (simp add: create_items_ok [OF thr all])
  have "createOrder_tx e r d =
     (if co_throws e Order_refetch then R_failed_to_create_order
      else R_order_created ?x
             (filter (\<lambda>it. item_order_id it = next_id (order_ids_used e) (map ord_id (orders d)))
                (order_items (checked_out r d ?x))),
      Tx_commit, checked_out r d ?x)"
    unfolding createOrder_tx_def
    using assms(1,3,4,6) nt
    by (simp add: assms(5) [unfolded valid] ci cart_eq [simplified] checked_out_def Let_def)
  then show ?thesis by (simp add: createOrder_def)
qed

lemma created_commits:
  "fst (createOrder_tx e r d) = R_order_created x its \<Longrightarrow>
   fst (snd (createOrder_tx e r d)) = Tx_commit"
  by (auto simp: createOrder_tx_def Let_def
      split: if_splits option.splits sum.splits prod.splits
      dest: validate_items_Inl)

lemma createOrder_created:
  assumes "createOrder e r d = (R_order_created x its, d')"
  obtains a subtot num where
    "valid_request r"
    "find (\<lambda>a. Some (addr_id a) = req_address_id r \<and> addr_user_id a = req_user r \<and>
             addr_is_active a) (addresses d) = Some a"
    "cartItems_of r d \<noteq> []"
    "validate_items (cartItems_of r d) 0 [] = Inr (subtot, cartItems_of r d)"
    "order_number_loop e (orders d) 0 10 = Inr (Some num)"
    "x = new_order e r (next_id (order_ids_used e) (map ord_id (orders d))) a num subtot 0 0 0 subtot"
    "d' = checked_out r d x"
    "its = filter (\<lambda>it. item_order_id it = ord_id x) (order_items d')"
proof -
  from createOrder_cases [of e r d]
  obtain resp d2 where tx: "createOrder_tx e r d = (resp, Tx_commit, d2)"
    and co: "createOrder e r d = (resp, d2)"
  proof
    assume a: "createOrder e r d = (fst (createOrder_tx e r d), d) \<and>
      fst (snd (createOrder_tx e r d)) \<noteq> Tx_commit"
    with assms have "fst (createOrder_tx e r d) = R_order_created x its" by auto
    from created_commits [OF this] a have False by simp
    then show thesis ..
  next
    assume "\<exists>resp d'. createOrder_tx e r d = (resp, Tx_commit, d') \<and>
      createOrder e r d = (resp, d')"
    with that show thesis by blast
  qed
  from co assms have eqs: "resp = R_order_created x its" "d2 = d'" by simp_all
  from tx obtain a subtot num where f:
    "valid_request r"
    "find (\<lambda>a. Some (addr_id a) = req_address_id r \<and> addr_user_id a = req_user r \<and>
             addr_is_active a) (addresses d) = Some a"
    "cartItems_of r d \<noteq> []"
    "validate_items (cartItems_of r d) 0 [] = Inr (subtot, cartItems_of r d)"
    "order_number_loop e (orders d) 0 10 = Inr (Some num)"
    "d2 = checked_out r d
            (new_order e r (next_id (order_ids_used e) (map ord_id (orders d))) a num subtot 0 0 0 subtot)"
    "resp = (if co_throws e Order_refetch then R_failed_to_create_order
             else R_order_created
               (new_order e r (next_id (order_ids_used e) (map ord_id (orders d))) a num subtot 0 0 0 subtot)
               (filter (\<lambda>it. item_order_id it = next_id (order_ids_used e) (map ord_id (orders d)))
                  (order_items d2)))"
    by (rule createOrder_tx_commit)
  from f(7) eqs have
    x: "x = new_order e r (next_id (order_ids_used e) (map ord_id (orders d))) a num subtot 0 0 0 subtot"
    and its: "its = filter (\<lambda>it. item_order_id it = next_id (order_ids_used e) (map ord_id (orders d)))
                  (order_items d')"
    by (auto split: if_splits)
  show thesis
    by (rule that [OF f(1-5) x]) (use f(6) eqs x its in simp_all)
qed

lemma fst_createOrder: "fst (createOrder e r d) = fst (createOrder_tx e r d)"
proof -
  obtain resp t d' where tx: "createOrder_tx e r d = (resp, t, d')"
    by (cases "createOrder_tx e r d") auto
  then show ?thesis by (cases t) (simp_all add: createOrder_def)
qed

lemma with_product_mem: "(c, Some p) \<in> set items \<Longrightarrow> (c, p) \<in> set (with_product items)"
  by (induction items rule: with_product.induct) auto

lemma insufficient_from_validation:
  assumes "fst (createOrder_tx e r d) = R_insufficient_stock nm avail"
  shows "validate_items (cartItems_of r d) 0 [] = Inl (R_insufficient_stock nm avail)"
  using assms
  by (auto simp: createOrder_tx_def Let_def
      split: if_splits option.splits sum.splits prod.splits)

lemma checkout_stock_ok:
  assumes "validate_items (cartItems_of r d) 0 [] = Inr (subtot, valid)"
  shows "\<forall>cp \<in> set (with_product (cartItems_of r d)). quantity (fst cp) \<le> stock_quantity (snd cp)"
  using validate_items_Inr [OF assms] by simp

lemma checkout_unchanged_or_validated:
  "snd (createOrder e r d) = d \<or>
   (\<exists>subtot x. validate_items (cartItems_of r d) 0 [] = Inr (subtot, cartItems_of r d) \<and>
      snd (createOrder e r d) = checked_out r d x)"
proof -
  from createOrder_cases [of e r d] show ?thesis
  proof
    assume "createOrder e r d = (fst (createOrder_tx e r d), d) \<and>
      fst (snd (createOrder_tx e r d)) \<noteq> Tx_commit"
    then show ?thesis by simp
  next
    assume "\<exists>resp d'. createOrder_tx e r d = (resp, Tx_commit, d') \<and>
      createOrder e r d = (resp, d')"
    then obtain resp d' where tx: "createOrder_tx e r d = (resp, Tx_commit, d')"
      and co: "createOrder e r d = (resp, d')" by blast
    from tx obtain a subtot num where
      "validate_items (cartItems_of r d) 0 [] = Inr (subtot, cartItems_of r d)"
      "d' = checked_out r d
            (new_order e r (next_id (order_ids_used e) (map ord_id (orders d))) a num subtot 0 0 0 subtot)"
      by (rule createOrder_tx_commit)
    with co show ?thesis by auto
  qed
qed

lemma restore_stock_nonneg:
  assumes "restore_stock throws i its ps = Inr ps'"
    and "\<forall>p \<in> set ps. 0 \<le> stock_quantity p"
    and "\<forall>it \<in> set its. 0 \<le> item_quantity it"
  shows "\<forall>p \<in> set ps'. 0 \<le> stock_quantity p"
  using assms
proof (induction its arbitrary: i ps)
  case Nil
  then show ?case by simp
next
  case (Cons it its)
  show ?case
  proof (cases "find (\<lambda>p. prod_id p = item_product_id it) ps")
    case None
    with Cons.prems have "restore_stock throws (Suc i) its ps = Inr ps'"
      by (simp split: if_splits)
    from Cons.IH [OF this] Cons.prems show ?thesis by simp
  next
    case (Some p)
    let ?ps1 = "set_stock (prod_id p) (stock_quantity p + item_quantity it) ps"
    from Some have "p \<in> set ps" by (auto simp: find_Some_iff)
    with Cons.prems have "0 \<le> stock_quantity p + item_quantity it" by simp
    with Cons.prems(2) have nn: "\<forall>p \<in> set ?ps1. 0 \<le> stock_quantity p"
      by (auto simp: set_stock_def)
    from Cons.prems Some have "restore_stock throws (Suc i) its ?ps1 = Inr ps'"
      by (simp split: if_splits)
    from Cons.IH [OF this nn] Cons.prems(3) show ?thesis by simp
  qed
qed

lemma cancelOrder_products:
  "products (snd (cancelOrder throws cr d)) = products d \<or>
   (\<exists>k ps'. restore_stock throws 0 (filter (\<lambda>it. item_order_id it = k) (order_items d))
       (products d) = Inr ps' \<and> products (snd (cancelOrder throws cr d)) = ps')"
  by (auto simp: cancelOrder_def cancelOrder_tx_def Let_def
      split: option.splits if_splits sum.splits)

text \<open>The sample checkout, evaluated.\<close>

lemma ex_checkout_pieces:
  "valid_request ex_order_request"
  "find (\<lambda>a. Some (addr_id a) = req_address_id ex_order_request \<and>
           addr_user_id a = req_user ex_order_request \<and> addr_is_active a) (addresses ex_db) =
     Some ex_address"
  "cartItems_of ex_order_request ex_db = [(ex_cart_line, Some ex_product)]"
  "validate_items [(ex_cart_line, Some ex_product)] 0 [] =
     Inr (30000000, [(ex_cart_line, Some ex_product)])"
  "order_number_loop ex_co_env (orders ex_db) 0 10 = Inr (Some ''ORD-2'')"
  "order_number_loop ex_co_env_refetch (orders ex_db) 0 10 = Inr (Some ''ORD-2'')"
  "order_number_loop ex_co_env_item (orders ex_db) 0 10 = Inr (Some ''ORD-2'')"
  "next_id (order_ids_used ex_co_env) (map ord_id (orders ex_db)) = 8"
  by (simp_all add: ex_defs co_defs valid_request_def cartItems_of_def select_cart_lines_def
      include_product_def order_number_loop_10 next_id_def)


lemma ex_checkout_succeeds:
  "createOrder ex_co_env ex_order_request ex_db =
     (R_order_created
        (new_order ex_co_env ex_order_request 8 ex_address ''ORD-2'' 30000000 0 0 0 30000000)
        (filter (\<lambda>it. item_order_id it = 8)
           (order_items (checked_out ex_order_request ex_db
              (new_order ex_co_env ex_order_request 8 ex_address ''ORD-2'' 30000000 0 0 0
                 30000000)))),
      checked_out ex_order_request ex_db
        (new_order ex_co_env ex_order_request 8 ex_address ''ORD-2'' 30000000 0 0 0 30000000))"
proof -
  have thr: "\<forall>c. c \<noteq> Order_refetch \<longrightarrow> \<not> co_throws ex_co_env c"
    and re: "\<not> co_throws ex_co_env Order_refetch"
    by (simp_all add: co_defs)
  have ne: "cartItems_of ex_order_request ex_db \<noteq> []" by (simp add: ex_checkout_pieces)
  have val: "validate_items (cartItems_of ex_order_request ex_db) 0 [] =
      Inr (30000000, [(ex_cart_line, Some ex_product)])"
    unfolding ex_checkout_pieces(3) by (rule ex_checkout_pieces(4))
  note eq = createOrder_commits [OF ex_checkout_pieces(1) thr ex_checkout_pieces(2) ne val
      ex_checkout_pieces(5)]
  show ?thesis
    unfolding eq ex_checkout_pieces(8) using re by (simp only: if_False)
qed

lemma ex_checked_out:
  "products (checked_out ex_order_request ex_db x) = [ex_product\<lparr> stock_quantity := 0 \<rparr>]"
  "cart (checked_out ex_order_request ex_db x) = []"
  "orders (checked_out ex_order_request ex_db x) = [ex_order, x]"
  "order_items (checked_out ex_order_request ex_db x) =
     [ex_order_item, order_item_of (ord_id x) ex_cart_line ex_product]"
proof -
  have tabs: "products ex_db = [ex_product]" "cart ex_db = [ex_cart_line]"
    "orders ex_db = [ex_order]" "order_items ex_db = [ex_order_item]"
    by (simp_all add: ex_db_def)
  have sel: "select_cart_lines ex_order_request [ex_cart_line] = [ex_cart_line]"
    by (simp add: ex_defs co_defs select_cart_lines_def)
  have wp: "with_product (cartItems_of ex_order_request ex_db) = [(ex_cart_line, ex_product)]"
    by (simp add: ex_checkout_pieces)
  show "products (checked_out ex_order_request ex_db x) = [ex_product\<lparr> stock_quantity := 0 \<rparr>]"
    by (simp add: checked_out_def wp stock_writes_def set_stock_def tabs ex_product_def
        ex_cart_line_def)
  show "cart (checked_out ex_order_request ex_db x) = []"
    by (simp add: checked_out_def tabs sel)
  show "orders (checked_out ex_order_request ex_db x) = [ex_order, x]"
    by (simp add: checked_out_def tabs)
  show "order_items (checked_out ex_order_request ex_db x) =
     [ex_order_item, order_item_of (ord_id x) ex_cart_line ex_product]"
    by (simp add: checked_out_def tabs wp)
qed

lemma ex_item_throw:
  "createOrder ex_co_env_item ex_order_request ex_db = (R_failed_to_create_order, ex_db)"
proof -
  have thr: "\<not> co_throws ex_co_env_item Address_findOne"
    "\<not> co_throws ex_co_env_item Cart_findAll" "\<not> co_throws ex_co_env_item Order_create"
    "\<not> co_throws ex_co_env_item (OrderItem_create 0)"
    "co_throws ex_co_env_item (Product_update 0)"
    by (simp_all add: co_defs)
  have "fst (createOrder_tx ex_co_env_item ex_order_request ex_db) = R_failed_to_create_order \<and>
        fst (snd (createOrder_tx ex_co_env_item ex_order_request ex_db)) = Tx_rollback"
    unfolding createOrder_tx_def
    by (simp add: ex_checkout_pieces thr Let_def del: validate_items.simps)
  then show ?thesis
    by (cases "createOrder_tx ex_co_env_item ex_order_request ex_db")
      (simp add: createOrder_def)
qed

text \<open>The environment in which the re-read of the created order does not throw, all else
  being the same: up to the commit the handler cannot tell the two apart.\<close>

lemma order_number_loop_refetch:
  "order_number_loop (e\<lparr> co_throws := (co_throws e)(Order_refetch := False) \<rparr>) os i k =
   order_number_loop e os i k"
  by (induction k arbitrary: i) simp_all

lemma create_items_same_throws:
  assumes "\<forall>i. co_throws e' (OrderItem_create i) = co_throws e (OrderItem_create i) \<and>
               co_throws e' (Product_update i) = co_throws e (Product_update i)"
  shows "create_items e' oid i items d acc = create_items e oid i items d acc"
proof (induction items arbitrary: i d acc)
  case Nil
  show ?case by simp
next
  case (Cons ci rest)
  obtain c po where ci: "ci = (c, po)" by (cases ci)
  show ?case
  proof (cases po)
    case None
    with ci show ?thesis by simp
  next
    case (Some p)
    with ci assms Cons.IH show ?thesis by (simp add: Let_def)
  qed
qed

lemma create_items_refetch:
  "create_items (e\<lparr> co_throws := (co_throws e)(Order_refetch := False) \<rparr>) oid i items d acc =
   create_items e oid i items d acc"
  by (rule create_items_same_throws) simp

lemma new_order_refetch:
  "new_order (e\<lparr> co_throws := f \<rparr>) r k a num subtot sh tx di tot =
   new_order e r k a num subtot sh tx di tot"
  by (simp add: new_order_def)

lemma createOrder_tx_refetch:
  assumes "createOrder_tx e r d = (resp, Tx_commit, d')"
  shows "\<exists>x its. createOrder_tx (e\<lparr> co_throws := (co_throws e)(Order_refetch := False) \<rparr>) r d =
           (R_order_created x its, Tx_commit, d')"
  using assms
  by (auto simp: createOrder_tx_def Let_def order_number_loop_refetch create_items_refetch
      new_order_refetch split: if_splits option.splits sum.splits prod.splits)

text \<open>
  Claim C3, as stated, fails for one internal error. After the commit the handler reads the
  created order again; when that read throws, the handler answers 500
  (\<^verbatim>\<open>Failed to create order\<close>) and, the transaction being committed, rolls nothing back. On
  the sample store the failed request leaves the new order and its item behind, the stock
  at 0 instead of 3 and the cart empty.
\<close>

theorem C3_refetch_counterexample:
  "fst (createOrder ex_co_env_refetch ex_order_request ex_db) = R_failed_to_create_order \<and>
   map stock_quantity (products ex_db) = [3] \<and>
   map stock_quantity (products (snd (createOrder ex_co_env_refetch ex_order_request ex_db))) = [0] \<and>
   map ord_id (orders ex_db) = [7] \<and>
   map ord_id (orders (snd (createOrder ex_co_env_refetch ex_order_request ex_db))) = [7, 8] \<and>
   length (order_items ex_db) = 1 \<and>
   length (order_items (snd (createOrder ex_co_env_refetch ex_order_request ex_db))) = 2 \<and>
   map cart_id (cart ex_db) = [21] \<and>
   cart (snd (createOrder ex_co_env_refetch ex_order_request ex_db)) = []"
proof -
  have thr: "\<forall>c. c \<noteq> Order_refetch \<longrightarrow> \<not> co_throws ex_co_env_refetch c"
    and re: "co_throws ex_co_env_refetch Order_refetch"
    by (simp_all add: co_defs)
  have ne: "cartItems_of ex_order_request ex_db \<noteq> []" by (simp add: ex_checkout_pieces)
  have val: "validate_items (cartItems_of ex_order_request ex_db) 0 [] =
      Inr (30000000, [(ex_cart_line, Some ex_product)])"
    unfolding ex_checkout_pieces(3) by (rule ex_checkout_pieces(4))
  note eq = createOrder_commits [OF ex_checkout_pieces(1) thr ex_checkout_pieces(2) ne val
      ex_checkout_pieces(6)]
  have olds: "map stock_quantity (products ex_db) = [3]" "map ord_id (orders ex_db) = [7]"
    "length (order_items ex_db) = 1" "map cart_id (cart ex_db) = [21]"
    by (simp_all add: ex_defs)
  have sel: "select_cart_lines ex_order_request (cart ex_db) = [ex_cart_line]"
    by (simp add: ex_defs co_defs select_cart_lines_def)
  have tabs: "products ex_db = [ex_product]" "cart ex_db = [ex_cart_line]"
    by (simp_all add: ex_db_def)
  have wp: "with_product (cartItems_of ex_order_request ex_db) = [(ex_cart_line, ex_product)]"
    by (simp add: ex_checkout_pieces)
  have n1: "map stock_quantity
       (products (snd (createOrder ex_co_env_refetch ex_order_request ex_db))) = [0]"
    unfolding eq
    by (simp add: checked_out_def wp stock_writes_def set_stock_def tabs ex_product_def
        ex_cart_line_def)
  have n2: "map ord_id (orders (snd (createOrder ex_co_env_refetch ex_order_request ex_db))) =
      [7, 8]"
    unfolding eq by (simp add: checked_out_def olds next_id_def co_defs)
  have n3: "length (order_items (snd (createOrder ex_co_env_refetch ex_order_request ex_db))) = 2"
    unfolding eq by (simp add: checked_out_def wp olds)
  have n4: "cart (snd (createOrder ex_co_env_refetch ex_order_request ex_db)) = []"
    unfolding eq by (simp add: checked_out_def sel [unfolded tabs] tabs)
  have resp: "fst (createOrder ex_co_env_refetch ex_order_request ex_db) =
      R_failed_to_create_order"
    unfolding eq using re by simp
  from resp olds n1 n2 n3 n4 show ?thesis by simp
qed

text \<open>
  Claim C3, amended. Every checkout request that is not answered with the created order
  leaves the store exactly as it was before the request (no order, no order item, no change
  of stock, no cart line removed), whatever the reason: validation, address, empty cart,
  unavailable product, insufficient stock, exhausted order numbers, or a store call that
  throws before the commit. The one exception is the internal error answered when the
  transaction has committed and the re-read of the order throws: then the store is exactly
  the one that the same request leaves, with the answer \<^verbatim>\<open>created\<close>, when the re-read does
  not throw.
\<close>

theorem C3_all_or_nothing:
  "(\<forall>x its. fst (createOrder e r d) \<noteq> R_order_created x its) \<longrightarrow>
   snd (createOrder e r d) = d \<or>
   (co_throws e Order_refetch \<and> fst (createOrder e r d) = R_failed_to_create_order \<and>
    (\<exists>x its. createOrder (e\<lparr> co_throws := (co_throws e)(Order_refetch := False) \<rparr>) r d =
       (R_order_created x its, snd (createOrder e r d))))"
proof
  assume nc: "\<forall>x its. fst (createOrder e r d) \<noteq> R_order_created x its"
  let ?e = "e\<lparr> co_throws := (co_throws e)(Order_refetch := False) \<rparr>"
  from createOrder_cases [of e r d]
  show "snd (createOrder e r d) = d \<or>
   (co_throws e Order_refetch \<and> fst (createOrder e r d) = R_failed_to_create_order \<and>
    (\<exists>x its. createOrder ?e r d = (R_order_created x its, snd (createOrder e r d))))"
  proof
    assume "createOrder e r d = (fst (createOrder_tx e r d), d) \<and>
      fst (snd (createOrder_tx e r d)) \<noteq> Tx_commit"
    then show ?thesis by simp
  next
    assume "\<exists>resp d'. createOrder_tx e r d = (resp, Tx_commit, d') \<and>
      createOrder e r d = (resp, d')"
    then obtain resp d' where tx: "createOrder_tx e r d = (resp, Tx_commit, d')"
      and co: "createOrder e r d = (resp, d')" by blast
    from tx obtain x its where "resp = (if co_throws e Order_refetch
        then R_failed_to_create_order else R_order_created x its)"
      by (rule createOrder_tx_commit)
    with nc co have re: "co_throws e Order_refetch" and resp: "resp = R_failed_to_create_order"
      by (auto split: if_splits)
    from createOrder_tx_refetch [OF tx] obtain x' its' where
      "createOrder_tx ?e r d = (R_order_created x' its', Tx_commit, d')" by blast
    then have "createOrder ?e r d = (R_order_created x' its', d')"
      by (simp add: createOrder_def)
    with re resp co show ?thesis by simp
  qed
qed

text \<open>The first stock update throws, after the order and its first item were written: the
  answer is the internal error and the sample store is unchanged. When only the re-read
  throws, the store is the one of the successful checkout.\<close>

theorem C3_all_or_nothing_witness:
  "(\<forall>x its. fst (createOrder ex_co_env_item ex_order_request ex_db) \<noteq> R_order_created x its) \<and>
   \<not> co_throws ex_co_env_item Order_refetch \<and>
   fst (createOrder ex_co_env_item ex_order_request ex_db) = R_failed_to_create_order \<and>
   snd (createOrder ex_co_env_item ex_order_request ex_db) = ex_db \<and>
   (\<forall>x its. fst (createOrder ex_co_env_refetch ex_order_request ex_db) \<noteq>
      R_order_created x its) \<and>
   snd (createOrder ex_co_env_refetch ex_order_request ex_db) \<noteq> ex_db \<and>
   (\<exists>x its. createOrder
      (ex_co_env_refetch\<lparr> co_throws := (co_throws ex_co_env_refetch)(Order_refetch := False) \<rparr>)
      ex_order_request ex_db =
      (R_order_created x its, snd (createOrder ex_co_env_refetch ex_order_request ex_db)))"
proof -
  have r: "fst (createOrder ex_co_env_item ex_order_request ex_db) = R_failed_to_create_order"
    by (simp add: ex_item_throw)
  have t: "\<not> co_throws ex_co_env_item Order_refetch" by (simp add: co_defs)
  have a: "snd (createOrder ex_co_env_item ex_order_request ex_db) = ex_db"
    using C3_all_or_nothing [of ex_co_env_item ex_order_request ex_db] r t by simp
  have thr: "\<forall>c. c \<noteq> Order_refetch \<longrightarrow> \<not> co_throws ex_co_env_refetch c"
    and re: "co_throws ex_co_env_refetch Order_refetch"
    by (simp_all add: co_defs)
  have ne: "cartItems_of ex_order_request ex_db \<noteq> []" by (simp add: ex_checkout_pieces)
  have val: "validate_items (cartItems_of ex_order_request ex_db) 0 [] =
      Inr (30000000, [(ex_cart_line, Some ex_product)])"
    unfolding ex_checkout_pieces(3) by (rule ex_checkout_pieces(4))
  note eq = createOrder_commits [OF ex_checkout_pieces(1) thr ex_checkout_pieces(2) ne val
      ex_checkout_pieces(6)]
  have r2: "fst (createOrder ex_co_env_refetch ex_order_request ex_db) =
      R_failed_to_create_order"
    unfolding eq using re by simp
  have "cart (snd (createOrder ex_co_env_refetch ex_order_request ex_db)) = []"
    unfolding eq by (simp add: ex_checked_out)
  moreover have "cart ex_db \<noteq> []" by (simp add: ex_db_def)
  ultimately have ch: "snd (createOrder ex_co_env_refetch ex_order_request ex_db) \<noteq> ex_db"
    by auto
  have b: "\<exists>x its. createOrder
      (ex_co_env_refetch\<lparr> co_throws := (co_throws ex_co_env_refetch)(Order_refetch := False) \<rparr>)
      ex_order_request ex_db =
      (R_order_created x its, snd (createOrder ex_co_env_refetch ex_order_request ex_db))"
    using C3_all_or_nothing [of ex_co_env_refetch ex_order_request ex_db] r2 ch by simp
  from r t a r2 ch b show ?thesis by simp
qed

text \<open>
  Claim C4. When the checkout answers with the created order \<open>x\<close>: \<open>x\<close> is pending with
  payment status pending and belongs to the caller; every selected cart line has its
  product in the store, and the subtotal is the sum over these lines of the price of that
  product times the quantity of the line; shipping cost, tax and discount are 0 and the
  total is subtotal + shipping cost + tax - discount; the order is appended to the orders;
  one order item per line is appended, carrying the product's id, name, sku and price as
  unit price, the quantity of the line and unit price times quantity as total price; the
  answer lists the items of the order; and the selected cart lines are gone from the cart.
\<close>

theorem C4_successful_checkout:
  assumes "createOrder e r d = (R_order_created x its, d')"
  shows "ord_status x = Os_pending \<and> payment_status x = Ps_pending \<and>
    ord_user_id x = req_user r \<and>
    map fst (with_product (cartItems_of r d)) = select_cart_lines r (cart d) \<and>
    (\<forall>cp \<in> set (with_product (cartItems_of r d)).
       find (\<lambda>p. prod_id p = cart_product_id (fst cp)) (products d) = Some (snd cp)) \<and>
    subtotal x =
      sum_list (map (\<lambda>cp. price (snd cp) * quantity (fst cp)) (with_product (cartItems_of r d))) \<and>
    shipping_cost x = 0 \<and> tax_amount x = 0 \<and> discount_amount x = 0 \<and>
    total_amount x = subtotal x + shipping_cost x + tax_amount x - discount_amount x \<and>
    orders d' = orders d @ [x] \<and>
    order_items d' = order_items d @
      map (\<lambda>cp. \<lparr> item_order_id = ord_id x, item_product_id = prod_id (snd cp),
                  item_quantity = quantity (fst cp), unit_price = price (snd cp),
                  total_price = price (snd cp) * quantity (fst cp),
                  product_name = name (snd cp), product_sku = sku (snd cp) \<rparr>)
        (with_product (cartItems_of r d)) \<and>
    its = filter (\<lambda>it. item_order_id it = ord_id x) (order_items d') \<and>
    cart d' = filter (\<lambda>c. c \<notin> set (select_cart_lines r (cart d))) (cart d) \<and>
    set (cart d') \<inter> set (select_cart_lines r (cart d)) = {}"
proof -
  from assms obtain a subtot num where
    val: "validate_items (cartItems_of r d) 0 [] = Inr (subtot, cartItems_of r d)"
    and x: "x = new_order e r (next_id (order_ids_used e) (map ord_id (orders d))) a num subtot 0 0 0 subtot"
    and d': "d' = checked_out r d x"
    and its: "its = filter (\<lambda>it. item_order_id it = ord_id x) (order_items d')"
    by (rule createOrder_created)
  from validate_items_Inr [OF val]
  have sub: "subtot = sum_list (map line_total (with_product (cartItems_of r d)))"
    and all: "map fst (with_product (cartItems_of r d)) = select_cart_lines r (cart d)"
    by simp_all
  have live: "\<forall>cp \<in> set (with_product (cartItems_of r d)).
       find (\<lambda>p. prod_id p = cart_product_id (fst cp)) (products d) = Some (snd cp)"
    using with_product_cartItems by blast
  have lt: "line_total = (\<lambda>cp. price (snd cp) * quantity (fst cp))"
    by (rule ext) (simp add: line_total_def)
  have hdr: "ord_status x = Os_pending" "payment_status x = Ps_pending"
    "ord_user_id x = req_user r" "shipping_cost x = 0" "tax_amount x = 0"
    "discount_amount x = 0"
    "total_amount x = subtotal x + shipping_cost x + tax_amount x - discount_amount x"
    "subtotal x =
      sum_list (map (\<lambda>cp. price (snd cp) * quantity (fst cp)) (with_product (cartItems_of r d)))"
    by (simp_all add: x new_order_def sub lt)
  have tabs: "orders d' = orders d @ [x]"
    "order_items d' = order_items d @
      map (\<lambda>cp. \<lparr> item_order_id = ord_id x, item_product_id = prod_id (snd cp),
                  item_quantity = quantity (fst cp), unit_price = price (snd cp),
                  total_price = price (snd cp) * quantity (fst cp),
                  product_name = name (snd cp), product_sku = sku (snd cp) \<rparr>)
        (with_product (cartItems_of r d))"
    "cart d' = filter (\<lambda>c. c \<notin> set (select_cart_lines r (cart d))) (cart d)"
    by (simp_all add: d' checked_out_def order_item_of_def)
  have gone: "set (cart d') \<inter> set (select_cart_lines r (cart d)) = {}"
    unfolding tabs(3) by auto
  from hdr all live tabs its gone show ?thesis by (intro conjI)
qed

text \<open>The sample checkout: three units at 100000.00 give the subtotal and total 300000.00
  of a pending order, and the cart is empty afterwards.\<close>

theorem C4_successful_checkout_witness:
  "co_status (fst (createOrder ex_co_env ex_order_request ex_db)) = 201 \<and>
   map ord_status (orders (snd (createOrder ex_co_env ex_order_request ex_db))) =
     [Os_confirmed, Os_pending] \<and>
   map subtotal (orders (snd (createOrder ex_co_env ex_order_request ex_db))) =
     [20000000, 30000000] \<and>
   map total_amount (orders (snd (createOrder ex_co_env ex_order_request ex_db))) =
     [20000000, 30000000] \<and>
   map total_price (order_items (snd (createOrder ex_co_env ex_order_request ex_db))) =
     [20000000, 30000000] \<and>
   cart (snd (createOrder ex_co_env ex_order_request ex_db)) = []"
proof -
  note c4 = C4_successful_checkout [OF ex_checkout_succeeds]
  have wp: "with_product (cartItems_of ex_order_request ex_db) = [(ex_cart_line, ex_product)]"
    by (simp add: ex_checkout_pieces)
  have vals: "price ex_product * quantity ex_cart_line = 30000000"
    "subtotal ex_order = 20000000" "total_amount ex_order = 20000000"
    "ord_status ex_order = Os_confirmed" "total_price ex_order_item = 20000000"
    by (simp_all add: ex_defs)
  from c4 have sub: "subtotal
      (new_order ex_co_env ex_order_request 8 ex_address ''ORD-2'' 30000000 0 0 0 30000000) =
      30000000"
    by (simp add: wp vals)
  from sub show ?thesis
    by (simp add: ex_checkout_succeeds ex_checked_out vals new_order_def order_item_of_def)
qed

text \<open>
  Claim C2. (1) A checkout in which a selected cart line asks for more than the stock of its
  product never creates an order and leaves the store unchanged. (2) Whenever the answer is
  the insufficient-stock rejection, it carries the name and the stock of the product of a
  selected line that asks for more than that stock; (3) and when the request is valid, the
  address is found, the queries do not throw and every selected product exists and is
  active, the answer is this rejection for the first such line. (4) A successful checkout,
  product ids and the products of the selected lines being distinct, lowers the stock of
  each product by exactly the quantity of its selected line and leaves the other products
  alone. (5) If no stock is negative before a checkout, none is negative after it, whatever
  its outcome; (6) and the same holds for a cancellation, order items having non-negative
  quantities.
\<close>

theorem C2_stock_never_negative:
  "((\<exists>cp \<in> set (with_product (cartItems_of r d)). stock_quantity (snd cp) < quantity (fst cp)) \<longrightarrow>
      (\<forall>x its. fst (createOrder e r d) \<noteq> R_order_created x its) \<and>
      snd (createOrder e r d) = d) \<and>
   (\<forall>nm avail. fst (createOrder e r d) = R_insufficient_stock nm avail \<longrightarrow>
      (\<exists>cp \<in> set (with_product (cartItems_of r d)).
         nm = name (snd cp) \<and> avail = stock_quantity (snd cp) \<and> avail < quantity (fst cp))) \<and>
   (\<forall>c p. valid_request r \<and> \<not> co_throws e Address_findOne \<and> \<not> co_throws e Cart_findAll \<and>
      find (\<lambda>a. Some (addr_id a) = req_address_id r \<and> addr_user_id a = req_user r \<and>
             addr_is_active a) (addresses d) \<noteq> None \<and>
      (\<forall>ci \<in> set (cartItems_of r d). \<exists>q. snd ci = Some q \<and> is_active q) \<and>
      find (\<lambda>cp. stock_quantity (snd cp) < quantity (fst cp)) (with_product (cartItems_of r d)) =
        Some (c, p) \<longrightarrow>
      createOrder e r d = (R_insufficient_stock (name p) (stock_quantity p), d)) \<and>
   (\<forall>x its. fst (createOrder e r d) = R_order_created x its \<and>
      distinct (map prod_id (products d)) \<and>
      distinct (map cart_product_id (select_cart_lines r (cart d))) \<longrightarrow>
      products (snd (createOrder e r d)) =
        map (\<lambda>p. p\<lparr> stock_quantity :=
               stock_quantity p - reserved (with_product (cartItems_of r d)) p \<rparr>) (products d)) \<and>
   ((\<forall>p \<in> set (products d). 0 \<le> stock_quantity p) \<longrightarrow>
      (\<forall>p \<in> set (products (snd (createOrder e r d))). 0 \<le> stock_quantity p)) \<and>
   ((\<forall>p \<in> set (products d). 0 \<le> stock_quantity p) \<and>
    (\<forall>it \<in> set (order_items d). 0 \<le> item_quantity it) \<longrightarrow>
      (\<forall>p \<in> set (products (snd (cancelOrder throws cr d))). 0 \<le> stock_quantity p))"
proof -
  let ?cps = "with_product (cartItems_of r d)"
  have rejected: "(\<forall>x its. fst (createOrder e r d) \<noteq> R_order_created x its) \<and>
      snd (createOrder e r d) = d"
    if short: "\<exists>cp \<in> set ?cps. stock_quantity (snd cp) < quantity (fst cp)"
  proof -
    have no: "validate_items (cartItems_of r d) 0 [] \<noteq> Inr (subtot, valid)" for subtot valid
    proof
      assume "validate_items (cartItems_of r d) 0 [] = Inr (subtot, valid)"
      from checkout_stock_ok [OF this] short show False by force
    qed
    have a: "fst (createOrder e r d) \<noteq> R_order_created x its" for x its
    proof
      assume "fst (createOrder e r d) = R_order_created x its"
      then have "createOrder e r d = (R_order_created x its, snd (createOrder e r d))"
        by (simp add: prod_eq_iff)
      then obtain subtot where
        "validate_items (cartItems_of r d) 0 [] = Inr (subtot, cartItems_of r d)"
        by (rule createOrder_created)
      with no [of subtot "cartItems_of r d"] show False by blast
    qed
    from checkout_unchanged_or_validated [of e r d] no
    have "snd (createOrder e r d) = d" by blast
    with a show ?thesis by simp
  qed
  have named: "\<exists>cp \<in> set ?cps.
         nm = name (snd cp) \<and> avail = stock_quantity (snd cp) \<and> avail < quantity (fst cp)"
    if "fst (createOrder e r d) = R_insufficient_stock nm avail" for nm avail
  proof -
    from that have "validate_items (cartItems_of r d) 0 [] = Inl (R_insufficient_stock nm avail)"
      by (simp add: fst_createOrder insufficient_from_validation)
    from validate_items_Inl [OF this] obtain c p where
      "(c, Some p) \<in> set (cartItems_of r d)" "stock_quantity p < quantity c"
      "nm = name p" "avail = stock_quantity p"
      by auto
    with with_product_mem [of c p "cartItems_of r d"] show ?thesis
      by (intro bexI [of _ "(c, p)"]) simp_all
  qed
  have first: "createOrder e r d = (R_insufficient_stock (name p) (stock_quantity p), d)"
    if v: "valid_request r" and t: "\<not> co_throws e Address_findOne" "\<not> co_throws e Cart_findAll"
      and a: "find (\<lambda>a. Some (addr_id a) = req_address_id r \<and> addr_user_id a = req_user r \<and>
             addr_is_active a) (addresses d) \<noteq> None"
      and act: "\<forall>ci \<in> set (cartItems_of r d). \<exists>q. snd ci = Some q \<and> is_active q"
      and f: "find (\<lambda>cp. stock_quantity (snd cp) < quantity (fst cp)) ?cps = Some (c, p)"
    for c p
  proof -
    from f have ne: "cartItems_of r d \<noteq> []" by auto
    have val: "validate_items (cartItems_of r d) 0 [] =
        Inl (R_insufficient_stock (name p) (stock_quantity p))"
      using act f by (rule validate_items_first_short)
    have "createOrder_tx e r d =
        (R_insufficient_stock (name p) (stock_quantity p), Tx_rollback, d)"
      using v t a ne by (auto simp: createOrder_tx_def val)
    then show ?thesis by (simp add: createOrder_def)
  qed
  have exact: "products (snd (createOrder e r d)) =
        map (\<lambda>p. p\<lparr> stock_quantity := stock_quantity p - reserved ?cps p \<rparr>) (products d)"
    if c: "fst (createOrder e r d) = R_order_created x its"
      and dp: "distinct (map prod_id (products d))"
      and dc: "distinct (map cart_product_id (select_cart_lines r (cart d)))" for x its
  proof -
    from c have "createOrder e r d = (R_order_created x its, snd (createOrder e r d))"
      by (simp add: prod_eq_iff)
    then obtain subtot where
      val: "validate_items (cartItems_of r d) 0 [] = Inr (subtot, cartItems_of r d)"
      and d': "snd (createOrder e r d) = checked_out r d x"
      by (rule createOrder_created)
    from validate_items_Inr [OF val]
    have all: "map fst ?cps = select_cart_lines r (cart d)" by simp
    have "map (\<lambda>cp. prod_id (snd cp)) ?cps = map (\<lambda>cp. cart_product_id (fst cp)) ?cps"
      by (rule map_cong [OF refl]) (simp add: with_product_cartItems)
    also have "\<dots> = map cart_product_id (map fst ?cps)" by (simp add: comp_def)
    finally have dcp: "distinct (map (\<lambda>cp. prod_id (snd cp)) ?cps)"
      using dc by (simp add: all)
    have mem: "\<forall>cp \<in> set ?cps. snd cp \<in> set (products d)"
      using with_product_cartItems by blast
    show ?thesis
      unfolding d' by (simp add: checked_out_def stock_writes_exact [OF dp dcp mem])
  qed
  have checkout_inv: "\<forall>p \<in> set (products (snd (createOrder e r d))). 0 \<le> stock_quantity p"
    if nn: "\<forall>p \<in> set (products d). 0 \<le> stock_quantity p"
  proof -
    from checkout_unchanged_or_validated [of e r d] show ?thesis
    proof
      assume "snd (createOrder e r d) = d"
      with nn show ?thesis by simp
    next
      assume "\<exists>subtot x. validate_items (cartItems_of r d) 0 [] = Inr (subtot, cartItems_of r d) \<and>
        snd (createOrder e r d) = checked_out r d x"
      then obtain subtot x where
        val: "validate_items (cartItems_of r d) 0 [] = Inr (subtot, cartItems_of r d)"
        and d': "snd (createOrder e r d) = checked_out r d x" by blast
      from stock_writes_nonneg [OF checkout_stock_ok [OF val] nn]
      show ?thesis by (simp add: d' checked_out_def)
    qed
  qed
  have cancel_inv: "\<forall>p \<in> set (products (snd (cancelOrder throws cr d))). 0 \<le> stock_quantity p"
    if nn: "\<forall>p \<in> set (products d). 0 \<le> stock_quantity p"
      and q: "\<forall>it \<in> set (order_items d). 0 \<le> item_quantity it"
  proof -
    from cancelOrder_products [of throws cr d] show ?thesis
    proof
      assume "products (snd (cancelOrder throws cr d)) = products d"
      with nn show ?thesis by simp
    next
      assume "\<exists>k ps'. restore_stock throws 0
          (filter (\<lambda>it. item_order_id it = k) (order_items d)) (products d) = Inr ps' \<and>
        products (snd (cancelOrder throws cr d)) = ps'"
      then obtain k ps' where
        rs: "restore_stock throws 0 (filter (\<lambda>it. item_order_id it = k) (order_items d))
          (products d) = Inr ps'"
        and eq: "products (snd (cancelOrder throws cr d)) = ps'" by blast
      have "\<forall>it \<in> set (filter (\<lambda>it. item_order_id it = k) (order_items d)). 0 \<le> item_quantity it"
        using q by simp
      from restore_stock_nonneg [OF rs nn this] eq show ?thesis by simp
    qed
  qed
  show ?thesis
  proof (intro conjI)
    show "(\<exists>cp \<in> set ?cps. stock_quantity (snd cp) < quantity (fst cp)) \<longrightarrow>
      (\<forall>x its. fst (createOrder e r d) \<noteq> R_order_created x its) \<and> snd (createOrder e r d) = d"
      using rejected by blast
    show "\<forall>nm avail. fst (createOrder e r d) = R_insufficient_stock nm avail \<longrightarrow>
      (\<exists>cp \<in> set ?cps.
         nm = name (snd cp) \<and> avail = stock_quantity (snd cp) \<and> avail < quantity (fst cp))"
      using named by blast
    show "\<forall>c p. valid_request r \<and> \<not> co_throws e Address_findOne \<and> \<not> co_throws e Cart_findAll \<and>
      find (\<lambda>a. Some (addr_id a) = req_address_id r \<and> addr_user_id a = req_user r \<and>
             addr_is_active a) (addresses d) \<noteq> None \<and>
      (\<forall>ci \<in> set (cartItems_of r d). \<exists>q. snd ci = Some q \<and> is_active q) \<and>
      find (\<lambda>cp. stock_quantity (snd cp) < quantity (fst cp)) ?cps = Some (c, p) \<longrightarrow>
      createOrder e r d = (R_insufficient_stock (name p) (stock_quantity p), d)"
      using first by blast
    show "\<forall>x its. fst (createOrder e r d) = R_order_created x its \<and>
      distinct (map prod_id (products d)) \<and>
      distinct (map cart_product_id (select_cart_lines r (cart d))) \<longrightarrow>
      products (snd (createOrder e r d)) =
        map (\<lambda>p. p\<lparr> stock_quantity := stock_quantity p - reserved ?cps p \<rparr>) (products d)"
      using exact by blast
    show "(\<forall>p \<in> set (products d). 0 \<le> stock_quantity p) \<longrightarrow>
      (\<forall>p \<in> set (products (snd (createOrder e r d))). 0 \<le> stock_quantity p)"
      using checkout_inv by blast
    show "(\<forall>p \<in> set (products d). 0 \<le> stock_quantity p) \<and>
      (\<forall>it \<in> set (order_items d). 0 \<le> item_quantity it) \<longrightarrow>
      (\<forall>p \<in> set (products (snd (cancelOrder throws cr d))). 0 \<le> stock_quantity p)"
      using cancel_inv by blast
  qed
qed

text \<open>Five units asked of a stock of three are refused by name and stock; three units asked
  of three are granted and leave the stock at 0.\<close>

theorem C2_stock_never_negative_witness:
  "createOrder ex_co_env ex_order_request ex_short_db =
     (R_insufficient_stock ''Cat food'' 3, ex_short_db) \<and>
   co_status (fst (createOrder ex_co_env ex_order_request ex_db)) = 201 \<and>
   distinct (map prod_id (products ex_db)) \<and>
   distinct (map cart_product_id (select_cart_lines ex_order_request (cart ex_db))) \<and>
   map stock_quantity (products ex_db) = [3] \<and>
   map stock_quantity (products (snd (createOrder ex_co_env ex_order_request ex_db))) = [0]"
proof -
  have short_items: "cartItems_of ex_order_request ex_short_db =
      [(ex_cart_line\<lparr> quantity := 5 \<rparr>, Some ex_product)]"
    by (simp add: ex_short_db_def ex_defs co_defs cartItems_of_def select_cart_lines_def
        include_product_def)
  have h: "valid_request ex_order_request" "\<not> co_throws ex_co_env Address_findOne"
    "\<not> co_throws ex_co_env Cart_findAll"
    "find (\<lambda>a. Some (addr_id a) = req_address_id ex_order_request \<and>
         addr_user_id a = req_user ex_order_request \<and> addr_is_active a)
       (addresses ex_short_db) \<noteq> None"
    "\<forall>ci \<in> set (cartItems_of ex_order_request ex_short_db). \<exists>q. snd ci = Some q \<and> is_active q"
    "find (\<lambda>cp. stock_quantity (snd cp) < quantity (fst cp))
       (with_product (cartItems_of ex_order_request ex_short_db)) =
     Some (ex_cart_line\<lparr> quantity := 5 \<rparr>, ex_product)"
    unfolding short_items
    by (simp_all add: ex_short_db_def ex_defs co_defs valid_request_def)
  from C2_stock_never_negative [where r = ex_order_request and d = ex_short_db
      and e = ex_co_env] h
  have rej: "createOrder ex_co_env ex_order_request ex_short_db =
     (R_insufficient_stock (name ex_product) (stock_quantity ex_product), ex_short_db)"
    by blast
  have dist: "distinct (map prod_id (products ex_db))"
    "distinct (map cart_product_id (select_cart_lines ex_order_request (cart ex_db)))"
    "map stock_quantity (products ex_db) = [3]"
    by (simp_all add: ex_defs co_defs select_cart_lines_def)
  have ok: "co_status (fst (createOrder ex_co_env ex_order_request ex_db)) = 201"
    by (simp add: ex_checkout_succeeds)
  have new: "map stock_quantity (products (snd (createOrder ex_co_env ex_order_request ex_db))) =
      [0]"
    by (simp add: ex_checkout_succeeds ex_checked_out)
  from rej dist ok new show ?thesis by (simp add: ex_product_def)
qed

section \<open>The list of cart lines of a checkout request\<close>

lemma createOrder_tx_same_selection:
  assumes "valid_request r2 = valid_request r1" and "req_address_id r2 = req_address_id r1"
    and "req_user r2 = req_user r1" and "req_shipping_method r2 = req_shipping_method r1"
    and "req_notes r2 = req_notes r1"
    and "select_cart_lines r2 (cart d) = select_cart_lines r1 (cart d)"
  shows "createOrder_tx e r2 d = createOrder_tx e r1 d"
  unfolding createOrder_tx_def cartItems_of_def new_order_def
  by (simp only: assms)

lemma createOrder_same_selection:
  assumes "select_cart_lines (r\<lparr> req_cart_item_ids := a \<rparr>) (cart d) =
           select_cart_lines (r\<lparr> req_cart_item_ids := b \<rparr>) (cart d)"
  shows "createOrder e (r\<lparr> req_cart_item_ids := a \<rparr>) d =
         createOrder e (r\<lparr> req_cart_item_ids := b \<rparr>) d"
proof -
  have "createOrder_tx e (r\<lparr> req_cart_item_ids := a \<rparr>) d =
        createOrder_tx e (r\<lparr> req_cart_item_ids := b \<rparr>) d"
    by (rule createOrder_tx_same_selection) (simp_all add: valid_request_def assms)
  then show ?thesis by (simp add: createOrder_def)
qed

lemma select_listed:
  "ids \<noteq> [] \<Longrightarrow>
   select_cart_lines (r\<lparr> req_cart_item_ids := Some ids \<rparr>) cs =
     filter (\<lambda>c. cart_id c \<in> set ids \<and> cart_user_id c = req_user r) cs"
  by (simp add: select_cart_lines_def)

lemma select_empty_list:
  "select_cart_lines (r\<lparr> req_cart_item_ids := Some [] \<rparr>) cs =
   select_cart_lines (r\<lparr> req_cart_item_ids := None \<rparr>) cs"
  by (simp add: select_cart_lines_def)

lemma no_items_means_empty:
  assumes "fst (createOrder_tx e r d) = R_no_items_in_cart"
  shows "cartItems_of r d = []"
  using assms
  by (auto simp: createOrder_tx_def Let_def
      split: if_splits option.splits sum.splits prod.splits dest: validate_items_Inl)

text \<open>
  Claim C10, as stated, fails for the empty list. A request that supplies
  \<^verbatim>\<open>cart_item_ids: []\<close> lists no cart line, so the subset of listed lines is empty; yet
  the handler takes the empty list for an absent one and checks out the whole cart of the
  caller: on the sample store the order is created and the cart line 21 is consumed.
\<close>

theorem C10_empty_list_counterexample:
  "req_cart_item_ids (ex_order_request\<lparr> req_cart_item_ids := Some [] \<rparr>) = Some [] \<and>
   filter (\<lambda>c. cart_id c \<in> set [] \<and> cart_user_id c = req_user ex_order_request) (cart ex_db) =
     [] \<and>
   co_status (fst (createOrder ex_co_env (ex_order_request\<lparr> req_cart_item_ids := Some [] \<rparr>)
     ex_db)) = 201 \<and>
   map cart_id (cart ex_db) = [21] \<and>
   cart (snd (createOrder ex_co_env (ex_order_request\<lparr> req_cart_item_ids := Some [] \<rparr>) ex_db)) =
     [] \<and>
   length (order_items (snd (createOrder ex_co_env
     (ex_order_request\<lparr> req_cart_item_ids := Some [] \<rparr>) ex_db))) = 2"
proof -
  have none: "ex_order_request\<lparr> req_cart_item_ids := None \<rparr> = ex_order_request"
    by (simp add: ex_order_request_def)
  have "createOrder ex_co_env (ex_order_request\<lparr> req_cart_item_ids := Some [] \<rparr>) ex_db =
        createOrder ex_co_env (ex_order_request\<lparr> req_cart_item_ids := None \<rparr>) ex_db"
    by (rule createOrder_same_selection) (rule select_empty_list)
  then have eq: "createOrder ex_co_env (ex_order_request\<lparr> req_cart_item_ids := Some [] \<rparr>) ex_db =
        createOrder ex_co_env ex_order_request ex_db"
    by (simp only: none)
  have "map cart_id (cart ex_db) = [21]" by (simp add: ex_defs)
  then show ?thesis
    unfolding eq by (simp add: ex_checkout_succeeds ex_checked_out)
qed

text \<open>
  Claim C10, amended. When the request supplies a list of cart line ids that is not empty,
  the selected lines are exactly the stored cart lines whose id is listed and that belong to
  the caller; an order that is created is built from these lines and from no other; the
  empty-cart rejection is given only if that subset is empty, and it is given whenever the
  subset is empty and the request is valid, the address is found and the queries do not
  throw; and replacing the list by any other non-empty list with the same subset changes
  neither the answer nor the store, so no answer depends on the ids that were dropped. An
  empty list is treated as an absent one.
\<close>

theorem C10_listed_cart_lines:
  assumes "req_cart_item_ids r = Some ids" and "ids \<noteq> []"
  shows "select_cart_lines r (cart d) =
      filter (\<lambda>c. cart_id c \<in> set ids \<and> cart_user_id c = req_user r) (cart d) \<and>
    (\<forall>x its d'. createOrder e r d = (R_order_created x its, d') \<longrightarrow>
       map fst (with_product (cartItems_of r d)) =
         filter (\<lambda>c. cart_id c \<in> set ids \<and> cart_user_id c = req_user r) (cart d) \<and>
       order_items d' = order_items d @
         map (\<lambda>cp. order_item_of (ord_id x) (fst cp) (snd cp)) (with_product (cartItems_of r d))) \<and>
    (fst (createOrder e r d) = R_no_items_in_cart \<longrightarrow>
       filter (\<lambda>c. cart_id c \<in> set ids \<and> cart_user_id c = req_user r) (cart d) = []) \<and>
    (valid_request r \<and> \<not> co_throws e Address_findOne \<and> \<not> co_throws e Cart_findAll \<and>
     find (\<lambda>a. Some (addr_id a) = req_address_id r \<and> addr_user_id a = req_user r \<and>
             addr_is_active a) (addresses d) \<noteq> None \<and>
     filter (\<lambda>c. cart_id c \<in> set ids \<and> cart_user_id c = req_user r) (cart d) = [] \<longrightarrow>
       createOrder e r d = (R_no_items_in_cart, d)) \<and>
    (\<forall>ids'. ids' \<noteq> [] \<and>
       filter (\<lambda>c. cart_id c \<in> set ids' \<and> cart_user_id c = req_user r) (cart d) =
       filter (\<lambda>c. cart_id c \<in> set ids \<and> cart_user_id c = req_user r) (cart d) \<longrightarrow>
       createOrder e (r\<lparr> req_cart_item_ids := Some ids' \<rparr>) d = createOrder e r d) \<and>
    createOrder e (r\<lparr> req_cart_item_ids := Some [] \<rparr>) d =
      createOrder e (r\<lparr> req_cart_item_ids := None \<rparr>) d"
proof -
  let ?sub = "filter (\<lambda>c. cart_id c \<in> set ids \<and> cart_user_id c = req_user r) (cart d)"
  have r: "r = r\<lparr> req_cart_item_ids := Some ids \<rparr>" using assms(1) by simp
  have sel: "select_cart_lines r (cart d) = ?sub"
    using assms by (simp add: select_cart_lines_def)
  have built: "map fst (with_product (cartItems_of r d)) = ?sub \<and>
       order_items d' = order_items d @
         map (\<lambda>cp. order_item_of (ord_id x) (fst cp) (snd cp)) (with_product (cartItems_of r d))"
    if "createOrder e r d = (R_order_created x its, d')" for x its d'
  proof -
    from that obtain subtot where
      val: "validate_items (cartItems_of r d) 0 [] = Inr (subtot, cartItems_of r d)"
      and d': "d' = checked_out r d x"
      by (rule createOrder_created)
    from validate_items_Inr [OF val] sel
    have "map fst (with_product (cartItems_of r d)) = ?sub" by simp
    then show ?thesis by (simp add: d' checked_out_def)
  qed
  have only_if: "?sub = []" if "fst (createOrder e r d) = R_no_items_in_cart"
  proof -
    from that have "cartItems_of r d = []"
      by (simp add: fst_createOrder no_items_means_empty)
    then have "select_cart_lines r (cart d) = []" by (simp add: cartItems_of_def)
    with sel show ?thesis by simp
  qed
  have if_empty: "createOrder e r d = (R_no_items_in_cart, d)"
    if "valid_request r" "\<not> co_throws e Address_findOne" "\<not> co_throws e Cart_findAll"
      "find (\<lambda>a. Some (addr_id a) = req_address_id r \<and> addr_user_id a = req_user r \<and>
             addr_is_active a) (addresses d) \<noteq> None"
      "?sub = []"
  proof -
    have "cartItems_of r d = []" using that(5) sel by (simp add: cartItems_of_def)
    with that(1-4) have "createOrder_tx e r d = (R_no_items_in_cart, Tx_rollback, d)"
      by (auto simp: createOrder_tx_def)
    then show ?thesis by (simp add: createOrder_def)
  qed
  have dropped: "createOrder e (r\<lparr> req_cart_item_ids := Some ids' \<rparr>) d = createOrder e r d"
    if "ids' \<noteq> []"
      "filter (\<lambda>c. cart_id c \<in> set ids' \<and> cart_user_id c = req_user r) (cart d) = ?sub" for ids'
  proof -
    have "createOrder e (r\<lparr> req_cart_item_ids := Some ids' \<rparr>) d =
          createOrder e (r\<lparr> req_cart_item_ids := Some ids \<rparr>) d"
      by (rule createOrder_same_selection) (simp add: select_listed that assms(2))
    with r show ?thesis by simp
  qed
  have empty: "createOrder e (r\<lparr> req_cart_item_ids := Some [] \<rparr>) d =
      createOrder e (r\<lparr> req_cart_item_ids := None \<rparr>) d"
    by (rule createOrder_same_selection) (rule select_empty_list)
  from sel built only_if if_empty dropped empty show ?thesis by blast
qed

text \<open>On the sample store the lists [21, 99] and [21] give the same checkout, and the list
  [99], which names no line of the caller, is refused with the empty-cart rejection.\<close>

theorem C10_listed_cart_lines_witness:
  "req_cart_item_ids (ex_order_request\<lparr> req_cart_item_ids := Some [21, 99] \<rparr>) = Some [21, 99] \<and>
   select_cart_lines (ex_order_request\<lparr> req_cart_item_ids := Some [21, 99] \<rparr>) (cart ex_db) =
     [ex_cart_line] \<and>
   createOrder ex_co_env (ex_order_request\<lparr> req_cart_item_ids := Some [21] \<rparr>) ex_db =
     createOrder ex_co_env (ex_order_request\<lparr> req_cart_item_ids := Some [21, 99] \<rparr>) ex_db \<and>
   createOrder ex_co_env (ex_order_request\<lparr> req_cart_item_ids := Some [99] \<rparr>) ex_db =
     (R_no_items_in_cart, ex_db)"
proof -
  let ?r = "ex_order_request\<lparr> req_cart_item_ids := Some [21, 99] \<rparr>"
  let ?q = "ex_order_request\<lparr> req_cart_item_ids := Some [99] \<rparr>"
  have h1: "req_cart_item_ids ?r = Some [21, 99]" "[21, 99] \<noteq> ([] :: int list)"
    by simp_all
  have h2: "req_cart_item_ids ?q = Some [99]" "[99] \<noteq> ([] :: int list)"
    by simp_all
  have tabs: "cart ex_db = [ex_cart_line]" "addresses ex_db = [ex_address]"
    by (simp_all add: ex_db_def)
  have sub: "filter (\<lambda>c. cart_id c \<in> set [21, 99] \<and> cart_user_id c = req_user ?r) (cart ex_db) =
      [ex_cart_line]"
    "filter (\<lambda>c. cart_id c \<in> set [21] \<and> cart_user_id c = req_user ?r) (cart ex_db) =
      [ex_cart_line]"
    "filter (\<lambda>c. cart_id c \<in> set [99] \<and> cart_user_id c = req_user ?q) (cart ex_db) = []"
    by (simp_all add: tabs ex_cart_line_def ex_order_request_def)
  have pre: "valid_request ?q" "\<not> co_throws ex_co_env Address_findOne"
    "\<not> co_throws ex_co_env Cart_findAll"
    "find (\<lambda>a. Some (addr_id a) = req_address_id ?q \<and> addr_user_id a = req_user ?q \<and>
         addr_is_active a) (addresses ex_db) \<noteq> None"
    by (simp_all add: valid_request_def tabs ex_address_def ex_order_request_def ex_co_env_def)
  note t1 = C10_listed_cart_lines [OF h1, of ex_db ex_co_env]
  note t2 = C10_listed_cart_lines [OF h2, of ex_db ex_co_env]
  have a: "select_cart_lines ?r (cart ex_db) = [ex_cart_line]"
    using t1 [THEN conjunct1] by (simp only: sub(1))
  have "[21] \<noteq> ([] :: int list) \<and>
     filter (\<lambda>c. cart_id c \<in> set [21] \<and> cart_user_id c = req_user ?r) (cart ex_db) =
     filter (\<lambda>c. cart_id c \<in> set [21, 99] \<and> cart_user_id c = req_user ?r) (cart ex_db)"
    by (simp only: sub) simp
  with t1 [THEN conjunct2, THEN conjunct2, THEN conjunct2, THEN conjunct2, THEN conjunct1,
      rule_format, of "[21]"]
  have b0: "createOrder ex_co_env (?r\<lparr> req_cart_item_ids := Some [21] \<rparr>) ex_db =
      createOrder ex_co_env ?r ex_db"
    by blast
  have upd: "?r\<lparr> req_cart_item_ids := Some [21] \<rparr> =
      ex_order_request\<lparr> req_cart_item_ids := Some [21] \<rparr>"
    by simp
  have b: "createOrder ex_co_env (ex_order_request\<lparr> req_cart_item_ids := Some [21] \<rparr>) ex_db =
      createOrder ex_co_env ?r ex_db"
    using b0 by (simp only: upd)
  have c: "createOrder ex_co_env ?q ex_db = (R_no_items_in_cart, ex_db)"
    using t2 [THEN conjunct2, THEN conjunct2, THEN conjunct2, THEN conjunct1] pre sub(3)
    by blast
  from a b c show ?thesis by (intro conjI) simp
qed


end
